theory Spec2Isabelle
  imports Complex_Main "HOL-Library.Word"
begin

text \<open>
  A model of \<open>src/bytenode/lib/index.js\<close>: the format validator
  (\<open>isBufferV8Bytecode\<close>), the compiler (\<open>compileCode\<close>), the compatibility fixup
  (\<open>fixBytecode\<close>), the rehydrator (\<open>readSourceHash\<close>, \<open>generateScript\<close>), the loads
  (\<open>runBytecode\<close>, \<open>runBytecodeFile\<close>, the \<open>.jsc\<close> handler), the cross-runtime compiler
  (\<open>compileElectronCode\<close>) and \<open>compileFile\<close>. The engine, zlib, the file system and
  the child process are parameters; the functions of the file are definitions.
\<close>

section \<open>Values of the host language\<close>

text \<open>
  A \<open>Buffer\<close> is a sequence of bytes. A JavaScript string is a sequence of UTF-16 code
  units (\<open>String.prototype.length\<close> and \<open>repeat\<close> count code units), so source texts
  and paths are lists of 16-bit words. Property names and the text of
  \<open>process.version\<close> are ASCII and are written as HOL strings.
\<close>

type_synonym byte = "8 word"
type_synonym buffer = "byte list"
type_synonym code_unit = "16 word"
type_synonym jsstring = "code_unit list"

text \<open>
  The values that reach the functions of \<open>lib/index.js\<close>. An object is the list of its
  own properties, in insertion order; a function value is opaque and has a name only;
  a number is an integer, since the file tests numbers for their type and truth only.
\<close>

datatype jsval =
    Undefined
  | Null
  | Bool bool
  | Num int
  | Str jsstring
  | Buf buffer
  | Obj "(string \<times> jsval) list"
  | Fn string

text \<open>
  Errors are values. \<open>Error msg\<close> is \<open>new Error(msg)\<close> thrown by this file,
  \<open>AssertionError msg\<close> a failed \<open>assert.ok(_, msg)\<close>, \<open>TypeError\<close> the
  language's own error for reading a property of \<open>null\<close> or \<open>undefined\<close>,
  \<open>RangeError\<close> its error for a string longer than the engine allows
  (\<open>Invalid string length\<close>), and
  \<open>HostError tag\<close> an error raised inside the runtime (zlib, the engine, the file
  system, the child process), which this file lets through unchanged.
\<close>

datatype error =
    Error string
  | AssertionError string
  | TypeError
  | RangeError
  | HostError string

subsection \<open>Buffer primitives\<close>

text \<open>\<open>Buffer.isBuffer(v)\<close>.\<close>

fun isBuffer :: "jsval \<Rightarrow> bool" where
  "isBuffer (Buf b) = True"
| "isBuffer v = False"

text \<open>
  \<open>buf.subarray(start, end)\<close> for \<open>0 \<le> start \<le> end\<close>: both indices are clamped to
  the length of the buffer, so a range past the end is shorter than asked for, or empty.
\<close>

definition subarray :: "buffer \<Rightarrow> nat \<Rightarrow> nat \<Rightarrow> buffer" where
  "subarray buf start end = take (end - start) (drop start buf)"

text \<open>\<open>a.equals(b)\<close>: same length and same bytes.\<close>

definition equals :: "buffer \<Rightarrow> buffer \<Rightarrow> bool" where
  "equals a b = (a = b)"

text \<open>
  \<open>source.copy(target, targetStart)\<close>: writes the bytes of \<open>source\<close> into \<open>target\<close>
  from \<open>targetStart\<close> on. Nothing is written when \<open>targetStart\<close> is not inside the
  target, and the copy stops at the end of the target. The target is mutated in place;
  the model returns its new contents.
\<close>

definition copy :: "buffer \<Rightarrow> buffer \<Rightarrow> nat \<Rightarrow> buffer" where
  "copy source target targetStart =
     (if targetStart \<ge> length target then target
      else let nb = min (length source) (length target - targetStart)
           in take targetStart target @ take nb source @ drop (targetStart + nb) target)"

section \<open>The format validator\<close>

definition MAGIC_NUMBER :: buffer where
  "MAGIC_NUMBER = [0xde, 0xc0]"

definition ZERO_LENGTH_EXTERNAL_REFERENCE_TABLE :: buffer where
  "ZERO_LENGTH_EXTERNAL_REFERENCE_TABLE = replicate 2 0"

fun isBufferV8Bytecode :: "jsval \<Rightarrow> bool" where
  "isBufferV8Bytecode (Buf buffer) =
     (\<not> equals (subarray buffer 0 2) ZERO_LENGTH_EXTERNAL_REFERENCE_TABLE \<and>
      equals (subarray buffer 2 4) MAGIC_NUMBER)"
| "isBufferV8Bytecode v = False"

text \<open>
  The validator as the specification words it: the two bytes at offsets 2 and 3 are the
  magic marker, and the two bytes at offsets 0 and 1 are not both zero.
\<close>

definition isValidCache_spec :: "buffer \<Rightarrow> bool" where
  "isValidCache_spec buf =
     ((4 \<le> length buf \<and> buf ! 2 = 0xde \<and> buf ! 3 = 0xc0) \<and>
      \<not> (buf ! 0 = 0 \<and> buf ! 1 = 0))"

section \<open>The host: engine, zlib, and the running version\<close>

text \<open>
  A \<open>vm.Script\<close> built from cached data: the text it was given, the cache it is bound to
  and its display file name.
\<close>

record script =
  source :: jsstring
  cachedData :: buffer
  filename :: jsval

text \<open>
  Everything \<open>lib/index.js\<close> asks of the runtime is a field of the record \<open>host\<close>:
  \<^item> \<open>node_version\<close>: major, minor and patch number of the running Node.js;
    \<open>process.version\<close> is their rendering \<open>v<major>.<minor>.<patch>\<close>;
  \<^item> \<open>max_string_length\<close>: the greatest number of code units a string of the engine
    can hold; an operation whose result would be longer throws \<open>RangeError\<close>;
  \<^item> \<open>vm_createCachedData src\<close>: \<open>new vm.Script(src, {produceCachedData: true})\<close>
    followed by \<open>createCachedData()\<close> (or \<open>.cachedData\<close> on old engines); the engine's
    \<open>SyntaxError\<close> is an \<open>Inl\<close>;
  \<^item> \<open>vm_cachedDataRejected src data\<close>: the flag \<open>cachedDataRejected\<close> of
    \<open>new vm.Script(src, {cachedData: data})\<close>;
  \<^item> \<open>vm_runInThisContext s\<close>: \<open>s.runInThisContext()\<close>, the value of the last
    statement, or what the script throws; what the script itself does to the world is
    outside this model;
  \<^item> \<open>brotliCompressSync\<close>, \<open>brotliDecompressSync\<close>: zlib; decompression throws on
    input that is not a Brotli stream;
  \<^item> \<open>require_electron\<close>: \<open>require('electron')\<close>, the path of the Electron binary,
    or the error of a missing package;
  \<^item> \<open>existsSync\<close>, \<open>path_normalize\<close>, \<open>path_extname\<close>, \<open>utf8_decode\<close>,
    \<open>Module_wrap\<close>: \<open>fs.existsSync\<close>, \<open>path.normalize\<close>, \<open>path.extname\<close>, the
    decoding of \<open>fs.readFileSync(_, 'utf-8')\<close> and \<open>Module.wrap\<close>.
\<close>

record host =
  node_version :: "nat \<times> nat \<times> nat"
  max_string_length :: nat
  vm_createCachedData :: "jsstring \<Rightarrow> error + buffer"
  vm_cachedDataRejected :: "jsstring \<Rightarrow> buffer \<Rightarrow> bool"
  vm_runInThisContext :: "script \<Rightarrow> error + jsval"
  brotliCompressSync :: "buffer \<Rightarrow> buffer"
  brotliDecompressSync :: "jsval \<Rightarrow> error + buffer"
  require_electron :: "error + jsstring"
  existsSync :: "jsstring \<Rightarrow> bool"
  path_normalize :: "jsstring \<Rightarrow> jsstring"
  path_extname :: "jsstring \<Rightarrow> jsstring"
  utf8_decode :: "buffer \<Rightarrow> jsstring"
  Module_wrap :: "jsstring \<Rightarrow> jsstring"

subsection \<open>Language primitives\<close>

text \<open>\<open>typeof v\<close>.\<close>

fun typeof :: "jsval \<Rightarrow> string" where
  "typeof Undefined = ''undefined''"
| "typeof Null = ''object''"
| "typeof (Bool b) = ''boolean''"
| "typeof (Num n) = ''number''"
| "typeof (Str s) = ''string''"
| "typeof (Buf b) = ''object''"
| "typeof (Obj ps) = ''object''"
| "typeof (Fn f) = ''function''"

text \<open>The truth value of \<open>v\<close> in a condition.\<close>

fun truthy :: "jsval \<Rightarrow> bool" where
  "truthy Undefined = False"
| "truthy Null = False"
| "truthy (Bool b) = b"
| "truthy (Num n) = (n \<noteq> 0)"
| "truthy (Str s) = (s \<noteq> [])"
| "truthy (Buf b) = True"
| "truthy (Obj ps) = True"
| "truthy (Fn f) = True"

text \<open>
  \<open>v.name\<close> for a value \<open>v\<close> that is neither \<open>null\<close> nor \<open>undefined\<close> and one of the
  option names this file reads (\<open>filename\<close>, \<open>compress\<close>, \<open>electron\<close>,
  \<open>electronPath\<close>, \<open>output\<close>, \<open>compileAsModule\<close>): an object answers with its
  property, or \<open>undefined\<close> when it has none; a boolean, number, string, Buffer or
  function has no property of these names and answers \<open>undefined\<close>.
\<close>

fun get_prop :: "jsval \<Rightarrow> string \<Rightarrow> jsval" where
  "get_prop (Obj ps) name = (case map_of ps name of None \<Rightarrow> Undefined | Some v \<Rightarrow> v)"
| "get_prop v name = Undefined"

text \<open>\<open>a || b\<close>: the first operand when it is truthy, the second otherwise.\<close>

definition js_or :: "jsval \<Rightarrow> jsval \<Rightarrow> jsval" where
  "js_or a b = (if truthy a then a else b)"

text \<open>\<open>s.startsWith(p)\<close> and \<open>s.slice(start, end)\<close> for \<open>0 \<le> start \<le> end\<close>.\<close>

definition startsWith :: "string \<Rightarrow> string \<Rightarrow> bool" where
  "startsWith s p = (take (length p) s = p)"

definition slice :: "string \<Rightarrow> nat \<Rightarrow> nat \<Rightarrow> string" where
  "slice s start end = take (end - start) (drop start s)"

text \<open>Decimal rendering of a number, as in \<open>process.version\<close>.\<close>

definition digit_char :: "nat \<Rightarrow> char" where
  "digit_char d = ''0123456789'' ! d"

fun dec :: "nat \<Rightarrow> string" where
  "dec n = (if n < 10 then [digit_char n] else dec (n div 10) @ [digit_char (n mod 10)])"

declare dec.simps [simp del]

definition process_version :: "host \<Rightarrow> string" where
  "process_version h =
     (case node_version h of (major, minor, patch) \<Rightarrow>
        ''v'' @ dec major @ ''.'' @ dec minor @ ''.'' @ dec patch)"

text \<open>
  \<open>parseFloat\<close> on a text of digits and dots, which is all a slice of \<open>process.version\<close>
  holds: the longest prefix \<open>digits\<close>, \<open>digits.digits\<close>, \<open>digits.\<close> or \<open>.digits\<close> is
  the number, anything after it is ignored, and \<open>None\<close> is \<open>NaN\<close> (no such prefix).
  The value is exact: the comparisons below are with 12 and 20, and rounding to a
  double does not move a decimal of at most four characters across an integer.
\<close>

definition is_digit :: "char \<Rightarrow> bool" where
  "is_digit c = (c \<in> set ''0123456789'')"

definition digit_val :: "char \<Rightarrow> nat" where
  "digit_val c = of_char c - 48"

definition digits_val :: "string \<Rightarrow> nat" where
  "digits_val ds = foldl (\<lambda>acc c. 10 * acc + digit_val c) 0 ds"

definition parseFloat :: "string \<Rightarrow> rat option" where
  "parseFloat s =
     (let int_part = takeWhile is_digit s;
          rest = dropWhile is_digit s;
          frac_part = (case rest of [] \<Rightarrow> []
                       | c # r \<Rightarrow> if c = CHR ''.'' then takeWhile is_digit r else [])
      in if int_part = [] \<and> frac_part = [] then None
         else Some (of_nat (digits_val int_part)
                    + of_nat (digits_val frac_part) / 10 ^ length frac_part))"

section \<open>Compiler\<close>

definition compileCode :: "host \<Rightarrow> jsval \<Rightarrow> jsval \<Rightarrow> error + buffer" where
  "compileCode h javascriptCode compress =
     (case javascriptCode of
        Str src \<Rightarrow>
          (case vm_createCachedData h src of
             Inl e \<Rightarrow> Inl e
           | Inr bytecodeBuffer \<Rightarrow>
               Inr (if truthy compress then brotliCompressSync h bytecodeBuffer
                    else bytecodeBuffer))
      | _ \<Rightarrow> Inl (Error (''javascriptCode must be string. '' @ typeof javascriptCode
                           @ '' was given.'')))"

section \<open>Compatibility fixup\<close>

text \<open>The conditions on the running version that \<open>fixBytecode\<close> and \<open>readSourceHash\<close> test.\<close>

definition node_8_8_or_8_9 :: "host \<Rightarrow> bool" where
  "node_8_8_or_8_9 h =
     (startsWith (process_version h) ''v8.8'' \<or> startsWith (process_version h) ''v8.9'')"

definition version :: "host \<Rightarrow> rat option" where
  "version h = parseFloat (slice (process_version h) 1 5)"

definition version_12_to_20 :: "host \<Rightarrow> bool" where
  "version_12_to_20 h =
     (case version h of None \<Rightarrow> False | Some v \<Rightarrow> v \<ge> 12 \<and> v \<le> 20)"

text \<open>
  The reference source: a string literal holding U+0CA0, an underscore and U+0CA0.
  \<open>fixBytecode\<close> returns nothing and mutates its argument; the model returns the new
  contents of the buffer. An error of the reference compile is raised before any byte
  is written.
\<close>

definition reference_source :: jsstring where
  "reference_source = [0x22, 0x0CA0, 0x5F, 0x0CA0, 0x22]"

definition fixBytecode :: "host \<Rightarrow> jsval \<Rightarrow> error + buffer" where
  "fixBytecode h bytecodeBuffer =
     (case bytecodeBuffer of
        Buf target \<Rightarrow>
          (case compileCode h (Str reference_source) Undefined of
             Inl e \<Rightarrow> Inl e
           | Inr dummyBytecode \<Rightarrow>
               Inr (if node_8_8_or_8_9 h then
                      copy (subarray dummyBytecode 20 24)
                        (copy (subarray dummyBytecode 16 20) target 16) 20
                    else if version_12_to_20 h then
                      copy (subarray dummyBytecode 12 16) target 12
                    else
                      copy (subarray dummyBytecode 16 20)
                        (copy (subarray dummyBytecode 12 16) target 12) 16))
      | _ \<Rightarrow> Inl (Error ''bytecodeBuffer must be a buffer object.''))"

section \<open>Rehydrator\<close>

text \<open>
  \<open>bytes.reduce((sum, number, power) => sum += number * Math.pow(256, power), 0)\<close>:
  \<open>acc\<close> is the running \<open>sum\<close> and \<open>pw\<close> is \<open>power\<close>, the index of the byte. At most
  four bytes are summed, so the double arithmetic of the source is exact.
\<close>

fun reduce :: "nat \<Rightarrow> nat \<Rightarrow> buffer \<Rightarrow> nat" where
  "reduce acc pw [] = acc"
| "reduce acc pw (number # rest) = reduce (acc + unat number * 256 ^ pw) (Suc pw) rest"

definition readSourceHash :: "host \<Rightarrow> jsval \<Rightarrow> error + nat" where
  "readSourceHash h bytecodeBuffer =
     (case bytecodeBuffer of
        Buf b \<Rightarrow>
          Inr (if node_8_8_or_8_9 h then reduce 0 0 (subarray b 12 16)
               else reduce 0 0 (subarray b 8 12))
      | _ \<Rightarrow> Inl (Error ''bytecodeBuffer must be a buffer object.''))"

text \<open>
  \<open>s.repeat(count)\<close> for \<open>count \<ge> 0\<close> and \<open>a + b\<close> on strings: both throw
  \<open>RangeError\<close> when the result would be longer than the engine's strings can be.
\<close>

definition js_repeat :: "host \<Rightarrow> jsstring \<Rightarrow> nat \<Rightarrow> error + jsstring" where
  "js_repeat h s count =
     (if length s * count > max_string_length h then Inl RangeError
      else Inr (concat (replicate count s)))"

definition js_concat :: "host \<Rightarrow> jsstring \<Rightarrow> jsstring \<Rightarrow> error + jsstring" where
  "js_concat h a b =
     (if length a + length b > max_string_length h then Inl RangeError else Inr (a @ b))"

text \<open>
  The placeholder text of lines 35 to 39, built from the declared length:
  \<open>'"' + '\u200b'.repeat(length - 2) + '"'\<close>, a double quote, \<open>length - 2\<close> zero-width
  spaces (U+200B) and a double quote, or the empty text when the length is at most 1.
  The length comes from four bytes of the cache, so it can be any number below
  \<open>2 ^ 32\<close>, also one that no string of the engine has.
\<close>

definition dummyCode :: "host \<Rightarrow> nat \<Rightarrow> error + jsstring" where
  "dummyCode h len =
     (if len > 1 then
        (case js_repeat h [0x200B] (len - 2) of
           Inl e \<Rightarrow> Inl e
         | Inr filler \<Rightarrow>
             (case js_concat h [0x22] filler of
                Inl e \<Rightarrow> Inl e
              | Inr opened \<Rightarrow> js_concat h opened [0x22]))
      else Inr [])"

text \<open>
  \<open>generateScript(cachedData, filename)\<close>. The source assigns \<open>cachedData\<close> twice:
  \<open>cachedData0\<close> is the argument and \<open>cachedData1\<close> the buffer after the decompression
  attempt; \<open>fixed\<close> is that buffer after \<open>fixBytecode\<close> has written into it.
\<close>

definition generateScript :: "host \<Rightarrow> jsval \<Rightarrow> jsval \<Rightarrow> error + script" where
  "generateScript h cachedData0 fname =
     (case (if \<not> isBufferV8Bytecode cachedData0 then
              (case brotliDecompressSync h cachedData0 of
                 Inl e \<Rightarrow> Inl e
               | Inr decompressed \<Rightarrow>
                   if isBufferV8Bytecode (Buf decompressed) then Inr (Buf decompressed)
                   else Inl (AssertionError ''Invalid bytecode buffer''))
            else Inr cachedData0) of
        Inl e \<Rightarrow> Inl e
      | Inr cachedData1 \<Rightarrow>
          (case fixBytecode h cachedData1 of
             Inl e \<Rightarrow> Inl e
           | Inr fixed \<Rightarrow>
               (case readSourceHash h (Buf fixed) of
                  Inl e \<Rightarrow> Inl e
                | Inr len \<Rightarrow>
                    (case dummyCode h len of
                       Inl e \<Rightarrow> Inl e
                     | Inr code \<Rightarrow>
                         if vm_cachedDataRejected h code fixed then
                           Inl (Error
                             ''Invalid or incompatible cached data (cachedDataRejected)'')
                         else
                           Inr \<lparr>source = code, cachedData = fixed,
                                filename = fname\<rparr>))))"

text \<open>The offsets that the three branches of \<open>fixBytecode\<close> name.\<close>

definition patched_offsets :: "host \<Rightarrow> nat set" where
  "patched_offsets h =
     (if node_8_8_or_8_9 h then {16..<20} \<union> {20..<24}
      else if version_12_to_20 h then {12..<16}
      else {12..<16} \<union> {16..<20})"

section \<open>Running a cache\<close>

text \<open>
  The files on disk, by path. Every function that touches the file system takes the
  files and returns them, so that a write would show.
\<close>

type_synonym files = "jsstring \<rightharpoonup> buffer"

definition readFileSync :: "files \<Rightarrow> jsstring \<Rightarrow> error + buffer" where
  "readFileSync fs name = (case fs name of None \<Rightarrow> Inl (HostError ''ENOENT'') | Some b \<Rightarrow> Inr b)"

definition runBytecode :: "host \<Rightarrow> jsval \<Rightarrow> error + jsval" where
  "runBytecode h bytecodeBuffer =
     (if \<not> isBuffer bytecodeBuffer then Inl (Error ''bytecodeBuffer must be a buffer object.'')
      else case generateScript h bytecodeBuffer Undefined of
             Inl e \<Rightarrow> Inl e
           | Inr script \<Rightarrow> vm_runInThisContext h script)"

definition runBytecodeFile :: "host \<Rightarrow> files \<Rightarrow> jsval \<Rightarrow> (error + jsval) \<times> files" where
  "runBytecodeFile h fs fname =
     (case fname of
        Str name \<Rightarrow>
          (case readFileSync fs name of
             Inl e \<Rightarrow> (Inl e, fs)
           | Inr bytecodeBuffer \<Rightarrow> (runBytecode h (Buf bytecodeBuffer), fs))
      | _ \<Rightarrow> (Inl (Error (''filename must be a string. '' @ typeof fname @ '' was given.'')), fs))"

text \<open>
  The handler registered for \<open>.jsc\<close> in \<open>Module._extensions\<close>, up to the compiled
  wrapper that \<open>script.runInThisContext\<close> returns; the call of the wrapper with the
  module's arguments is the engine's.
\<close>

definition jsc_extension :: "host \<Rightarrow> files \<Rightarrow> jsstring \<Rightarrow> (error + jsval) \<times> files" where
  "jsc_extension h fs name =
     (case readFileSync fs name of
        Inl e \<Rightarrow> (Inl e, fs)
      | Inr bytecodeBuffer \<Rightarrow>
          (case generateScript h (Buf bytecodeBuffer) (Str name) of
             Inl e \<Rightarrow> (Inl e, fs)
           | Inr script \<Rightarrow> (vm_runInThisContext h script, fs)))"

section \<open>Cross-runtime compiler\<close>

text \<open>
  The child process is seen through the events it emits, each handled to completion
  before the next (one thread of control). The order and number of the events are the
  child's and the runtime's choice, so a run is any list of events. The events are
  those the function listens to. An error on the child's standard input has no
  listener: it is an uncaught exception of the calling process, which ends with the
  promise unsettled, and it is no event of this model.
\<close>

datatype child_event =
    StdoutData buffer
  | StdoutError error
  | StdoutEnd
  | StderrData buffer
  | StderrError error
  | ChildMessage jsval
  | ChildError error
  | ChildExit "int option"

datatype 'a promise = Pending | Resolved 'a | Rejected error

datatype console_line = ConsoleError error | ConsoleErrorChunk buffer | ConsoleLog jsval

text \<open>
  The state that the handlers share: the closure variable \<open>data\<close>, the promise returned
  to the caller, and what was written to the console.
\<close>

record electron_state =
  data :: buffer
  promise :: "buffer promise"
  console :: "console_line list"

text \<open>A promise is settled once: \<open>resolve\<close> and \<open>reject\<close> on a settled promise do nothing.\<close>

definition resolve :: "'a \<Rightarrow> 'a promise \<Rightarrow> 'a promise" where
  "resolve v p = (case p of Pending \<Rightarrow> Resolved v | _ \<Rightarrow> p)"

definition reject :: "error \<Rightarrow> 'a promise \<Rightarrow> 'a promise" where
  "reject e p = (case p of Pending \<Rightarrow> Rejected e | _ \<Rightarrow> p)"

definition onEnd :: "host \<Rightarrow> jsval \<Rightarrow> electron_state \<Rightarrow> electron_state" where
  "onEnd h options st =
     (let data' = (if truthy (get_prop options ''compress'') then brotliCompressSync h (data st)
                   else data st)
      in st\<lparr>data := data', promise := resolve data' (promise st)\<rparr>)"

text \<open>The listeners of lines 126 to 149, one equation for each event.\<close>

fun handle :: "host \<Rightarrow> jsval \<Rightarrow> electron_state \<Rightarrow> child_event \<Rightarrow> electron_state" where
  "handle h options st (StdoutData chunk) = st\<lparr>data := data st @ chunk\<rparr>"
| "handle h options st (StdoutError err) = st\<lparr>console := console st @ [ConsoleError err]\<rparr>"
| "handle h options st StdoutEnd = onEnd h options st"
| "handle h options st (StderrData chunk) =
     st\<lparr>console := console st @ [ConsoleErrorChunk chunk]\<rparr>"
| "handle h options st (StderrError err) = st\<lparr>console := console st @ [ConsoleError err]\<rparr>"
| "handle h options st (ChildMessage message) =
     st\<lparr>console := console st @ [ConsoleLog message]\<rparr>"
| "handle h options st (ChildError err) =
     st\<lparr>console := console st @ [ConsoleError err], promise := reject err (promise st)\<rparr>"
| "handle h options st (ChildExit code) = onEnd h options st"

definition spawned :: electron_state where
  "spawned = \<lparr>data = [], promise = Pending, console = []\<rparr>"

definition thrown :: "error \<Rightarrow> electron_state" where
  "thrown e = \<lparr>data = [], promise = Rejected e, console = []\<rparr>"

text \<open>
  \<open>compileElectronCode(javascriptCode, options)\<close> and the events of its child: the state
  after the last event. An exception in the executor (a missing \<open>electron\<close> package, a
  path that is no string, no executable at the path, a source that cannot be written to
  the child's input) rejects the promise before any listener is registered.
\<close>

definition compileElectronCode ::
  "host \<Rightarrow> jsval \<Rightarrow> jsval \<Rightarrow> child_event list \<Rightarrow> electron_state" where
  "compileElectronCode h javascriptCode options0 events =
     (case require_electron h of
        Inl e \<Rightarrow> thrown e
      | Inr electronExecutablePath \<Rightarrow>
          (let options = js_or options0 (Obj []) in
           case (if truthy (get_prop options ''electronPath'') then
                   (case get_prop options ''electronPath'' of
                      Str p \<Rightarrow> Inr (path_normalize h p)
                    | _ \<Rightarrow> Inl TypeError)
                 else Inr electronExecutablePath) of
             Inl e \<Rightarrow> thrown e
           | Inr electronPath \<Rightarrow>
               if \<not> existsSync h electronPath then thrown (Error ''Electron not found'')
               else if \<not> (typeof javascriptCode = ''string'' \<or> isBuffer javascriptCode)
                 then thrown TypeError
               else foldl (handle h options) spawned events))"

section \<open>Compiling a file\<close>

text \<open>The options of \<open>compileFile\<close> after lines 220 to 237.\<close>

record compile_args =
  arg_filename :: jsval
  arg_compileAsModule :: bool
  arg_compress :: jsval
  arg_electron :: jsval
  arg_electronPath :: jsval

definition decode_args :: "jsval \<Rightarrow> error + compile_args" where
  "decode_args args =
     (if typeof args = ''string'' then
        Inr \<lparr>arg_filename = args, arg_compileAsModule = True, arg_compress = Bool False,
             arg_electron = Bool False, arg_electronPath = Undefined\<rparr>
      else if typeof args = ''object'' then
        (if args = Null then Inl TypeError
         else Inr \<lparr>arg_filename = get_prop args ''filename'',
                   arg_compileAsModule = (get_prop args ''compileAsModule'' \<noteq> Bool False),
                   arg_compress = get_prop args ''compress'',
                   arg_electron = js_or (get_prop args ''electron'')
                                    (Bool (truthy (get_prop args ''electronPath''))),
                   arg_electronPath = get_prop args ''electronPath''\<rparr>)
      else
        Inr \<lparr>arg_filename = Undefined, arg_compileAsModule = False, arg_compress = Undefined,
             arg_electron = Undefined, arg_electronPath = Undefined\<rparr>)"

definition COMPILED_EXTNAME :: jsstring where
  "COMPILED_EXTNAME = [0x2E, 0x6A, 0x73, 0x63]"

text \<open>\<open>s.slice(0, -n)\<close>: all but the last \<open>n\<close> code units, and the empty text when \<open>n = 0\<close>.\<close>

definition slice_to_minus :: "jsstring \<Rightarrow> nat \<Rightarrow> jsstring" where
  "slice_to_minus s n = (if n = 0 then [] else take (length s - n) s)"

text \<open>
  \<open>text.replace(/^#!.*/, '')\<close>: a text that begins with \<open>#!\<close> loses everything before
  its first line terminator (line feed, carriage return, U+2028, U+2029).
\<close>

definition line_terminator :: "code_unit \<Rightarrow> bool" where
  "line_terminator c = (c = 0x0A \<or> c = 0x0D \<or> c = 0x2028 \<or> c = 0x2029)"

definition strip_sheBang :: "jsstring \<Rightarrow> jsstring" where
  "strip_sheBang text =
     (if take 2 text = [0x23, 0x21] then dropWhile (\<lambda>c. \<not> line_terminator c) text else text)"

text \<open>
  \<open>compileFile(args, output)\<close> up to line 271: the path and the buffer handed to
  \<open>fs.writeFileSync\<close>, and the files after the write. \<open>events\<close> are the events of the
  child when the Electron path is taken. \<open>None\<close> is a promise that stays pending.
  The loader file written afterwards is not part of this model.
\<close>

definition compileFile ::
  "host \<Rightarrow> files \<Rightarrow> jsval \<Rightarrow> jsval \<Rightarrow> child_event list
     \<Rightarrow> ((error + jsstring \<times> buffer) \<times> files) option" where
  "compileFile h fs args output events =
     (case decode_args args of
        Inl e \<Rightarrow> Some (Inl e, fs)
      | Inr a \<Rightarrow>
          (case arg_filename a of
             Str fname \<Rightarrow>
               (case js_or (get_prop args ''output'')
                       (js_or output
                          (Str (slice_to_minus fname (length (path_extname h fname))
                                @ COMPILED_EXTNAME))) of
                  Str compiledFilename \<Rightarrow>
                    (case readFileSync fs fname of
                       Inl e \<Rightarrow> Some (Inl e, fs)
                     | Inr bytes \<Rightarrow>
                         (let javascriptCode = utf8_decode h bytes;
                              code0 = strip_sheBang javascriptCode;
                              code = (if arg_compileAsModule a then Module_wrap h code0
                                      else code0)
                          in if truthy (arg_electron a) then
                               (case promise (compileElectronCode h (Str code)
                                                (arg_compress a) events) of
                                  Pending \<Rightarrow> None
                                | Rejected e \<Rightarrow> Some (Inl e, fs)
                                | Resolved bytecodeBuffer \<Rightarrow>
                                    Some (Inr (compiledFilename, bytecodeBuffer),
                                          fs(compiledFilename \<mapsto> bytecodeBuffer)))
                             else
                               (case compileCode h (Str code) (arg_compress a) of
                                  Inl e \<Rightarrow> Some (Inl e, fs)
                                | Inr bytecodeBuffer \<Rightarrow>
                                    Some (Inr (compiledFilename, bytecodeBuffer),
                                          fs(compiledFilename \<mapsto> bytecodeBuffer)))))
                | v \<Rightarrow> Some (Inl (Error (''output must be a string. '' @ typeof v
                                           @ '' was given.'')), fs))
           | v \<Rightarrow> Some (Inl (Error (''filename must be a string. '' @ typeof v
                                      @ '' was given.'')), fs)))"

section \<open>Words used in the statements\<close>

text \<open>The output of the child so far: the chunks of its standard output, in order.\<close>

fun stdout_chunks :: "child_event list \<Rightarrow> buffer" where
  "stdout_chunks [] = []"
| "stdout_chunks (StdoutData chunk # es) = chunk @ stdout_chunks es"
| "stdout_chunks (e # es) = stdout_chunks es"

fun is_exit :: "child_event \<Rightarrow> bool" where
  "is_exit (ChildExit code) = True"
| "is_exit e = False"

fun is_child_error :: "child_event \<Rightarrow> bool" where
  "is_child_error (ChildError err) = True"
| "is_child_error e = False"

text \<open>What \<open>onEnd\<close> resolves the promise with, given the accumulated output.\<close>

definition resolved_value :: "host \<Rightarrow> jsval \<Rightarrow> buffer \<Rightarrow> buffer" where
  "resolved_value h options0 out =
     (if truthy (get_prop (js_or options0 (Obj [])) ''compress'') then brotliCompressSync h out
      else out)"

section \<open>An example host\<close>

text \<open>
  A small host on which the definitions can be run: Node.js 18.17.0 with a toy engine,
  whose strings hold at most \<open>2 ^ 29 - 24\<close> code units.
  Its cache has the header layout of the specification (marker at 2 to 3, declared source
  length at 8 to 11, flag bytes at 12 to 15) followed by the low bytes of the source, and
  it rejects a cache whose declared length or flag bytes differ from what it expects.
  Compression is a stand-in for zlib: it puts one byte in front, and decompression
  accepts only that.
\<close>

definition ascii :: "string \<Rightarrow> jsstring" where
  "ascii s = map (\<lambda>c. of_nat (of_char c)) s"

definition le32 :: "nat \<Rightarrow> buffer" where
  "le32 n = map (\<lambda>k. of_nat (n div 256 ^ k)) [0, 1, 2, 3]"

definition example_flags :: buffer where
  "example_flags = [0xa4, 0x77, 0x12, 0x3e]"

definition example_cache :: "jsstring \<Rightarrow> buffer" where
  "example_cache src =
     [0x3c, 0x05, 0xde, 0xc0, 0x51, 0x4a, 0x9c, 0x7b] @ le32 (length src) @ example_flags
       @ le32 (length src) @ [0x0f, 0x1e, 0x2d, 0x3c] @ map ucast src"

fun example_decompress :: "jsval \<Rightarrow> error + buffer" where
  "example_decompress (Buf (b # rest)) =
     (if b = 0x1b then Inr rest else Inl (HostError ''Decompression failed''))"
| "example_decompress v = Inl (HostError ''Decompression failed'')"

definition example_host :: host where
  "example_host =
     \<lparr>node_version = (18, 17, 0),
      max_string_length = 536870888,
      vm_createCachedData = (\<lambda>src. Inr (example_cache src)),
      vm_cachedDataRejected = (\<lambda>src cache.
         reduce 0 0 (subarray cache 8 12) \<noteq> length src \<or> subarray cache 12 16 \<noteq> example_flags),
      vm_runInThisContext = (\<lambda>s. Inr Undefined),
      brotliCompressSync = (\<lambda>b. 0x1b # b),
      brotliDecompressSync = example_decompress,
      require_electron = Inr (ascii ''/opt/electron''),
      existsSync = (\<lambda>p. p = ascii ''/opt/electron''),
      path_normalize = (\<lambda>p. p),
      path_extname = (\<lambda>p. drop (length p - 3) p),
      utf8_decode = map ucast,
      Module_wrap = (\<lambda>code.
         ascii ''(function (exports, require, module, __filename, __dirname) { ''
           @ code @ [0x0A] @ ascii ''});'')\<rparr>"

text \<open>The same host under Node.js 8.9.4 and under Node.js 20.5.0.\<close>

definition legacy_host :: host where
  "legacy_host = example_host\<lparr>node_version := (8, 9, 4)\<rparr>"

definition newer_host :: host where
  "newer_host = example_host\<lparr>node_version := (20, 5, 0)\<rparr>"

text \<open>A cache compiled by another build of the engine: its flag bytes differ.\<close>

definition foreign_cache :: buffer where
  "foreign_cache =
     [0x3c, 0x05, 0xde, 0xc0, 0x51, 0x4a, 0x9c, 0x7b, 7, 0, 0, 0, 0x11, 0x22, 0x33, 0x44,
      7, 0, 0, 0, 0x0f, 0x1e, 0x2d, 0x3c, 0x76, 0x61, 0x72, 0x20, 0x78, 0x3d, 0x31]"

text \<open>The same cache with the flag bytes of the example engine.\<close>

definition fixed_cache :: buffer where
  "fixed_cache =
     [0x3c, 0x05, 0xde, 0xc0, 0x51, 0x4a, 0x9c, 0x7b, 7, 0, 0, 0, 0xa4, 0x77, 0x12, 0x3e,
      7, 0, 0, 0, 0x0f, 0x1e, 0x2d, 0x3c, 0x76, 0x61, 0x72, 0x20, 0x78, 0x3d, 0x31]"

text \<open>The shortest buffer that the validator accepts.\<close>

definition short_cache :: buffer where
  "short_cache = [0x3c, 0x05, 0xde, 0xc0]"

text \<open>A valid header that declares a source of length 1.\<close>

definition length_one_cache :: buffer where
  "length_one_cache =
     [0x3c, 0x05, 0xde, 0xc0, 0x51, 0x4a, 0x9c, 0x7b, 1, 0, 0, 0, 0xa4, 0x77, 0x12, 0x3e,
      1, 0, 0, 0, 0x0f, 0x1e, 0x2d, 0x3c, 0x78]"

text \<open>A valid header that declares a source of length 0.\<close>

definition length_zero_cache :: buffer where
  "length_zero_cache =
     [0x3c, 0x05, 0xde, 0xc0, 0x51, 0x4a, 0x9c, 0x7b, 0, 0, 0, 0, 0xa4, 0x77, 0x12, 0x3e,
      0, 0, 0, 0, 0x0f, 0x1e, 0x2d, 0x3c]"

text \<open>A valid header whose length field holds the greatest value of four bytes.\<close>

definition huge_length_cache :: buffer where
  "huge_length_cache =
     [0x3c, 0x05, 0xde, 0xc0, 0x51, 0x4a, 0x9c, 0x7b, 0xff, 0xff, 0xff, 0xff,
      0xa4, 0x77, 0x12, 0x3e, 0, 0, 0, 0, 0x0f, 0x1e, 0x2d, 0x3c]"

text \<open>The source text \<open>1\<close>: one code unit, the expression statement of value 1.\<close>

definition one_char_source :: jsstring where
  "one_char_source = [0x31]"

text \<open>Ten bytes that are neither a cache nor a compressed cache.\<close>

definition ten_bytes :: buffer where
  "ten_bytes = [0x8c, 0x21, 0xf0, 0x5e, 0x07, 0xb3, 0x6a, 0xd9, 0x44, 0x12]"

text \<open>A source file on disk: \<open>1+1\<close>.\<close>

definition example_files :: files where
  "example_files = [ascii ''a.js'' \<mapsto> [0x31, 0x2b, 0x31]]"

text \<open>A compiled file on disk.\<close>

definition compiled_files :: files where
  "compiled_files = [ascii ''a.jsc'' \<mapsto> foreign_cache]"

section \<open>Properties of the validator\<close>

lemma four_bytes:
  assumes "4 \<le> length (buf :: buffer)"
  obtains a b c d rest where "buf = a # b # c # d # rest"
proof -
  from assms obtain a r1 where 1: "buf = a # r1" by (cases buf) auto
  with assms obtain b r2 where 2: "r1 = b # r2" by (cases r1) auto
  with 1 assms obtain c r3 where 3: "r2 = c # r3" by (cases r2) auto
  with 1 2 assms obtain d rest where 4: "r3 = d # rest" by (cases r3) auto
  from 1 2 3 4 that show thesis by simp
qed

lemma subarray_length_le: "length (subarray buf start end) \<le> length buf - start"
  by (simp add: subarray_def)

lemma isBufferV8Bytecode_Buf:
  "isBufferV8Bytecode (Buf buf) =
     (4 \<le> length buf \<and> buf ! 2 = 0xde \<and> buf ! 3 = 0xc0 \<and> \<not> (buf ! 0 = 0 \<and> buf ! 1 = 0))"
proof (cases "4 \<le> length buf")
  case True
  then obtain a b c d rest where "buf = a # b # c # d # rest"
    by (rule four_bytes)
  then show ?thesis
    by (auto simp: equals_def subarray_def MAGIC_NUMBER_def
        ZERO_LENGTH_EXTERNAL_REFERENCE_TABLE_def numeral_2_eq_2)
next
  case False
  then have "length (subarray buf 2 4) < 2"
    using subarray_length_le [of buf 2 4] by simp
  then have "subarray buf 2 4 \<noteq> MAGIC_NUMBER"
    by (auto simp: MAGIC_NUMBER_def)
  with False show ?thesis
    by (simp add: equals_def)
qed

text \<open>
  C4. A buffer is classified as a valid cache exactly when its bytes at offsets 2 and 3
  are the magic marker \<open>de c0\<close> and its bytes at offsets 0 and 1 are not both zero.
\<close>

theorem isBufferV8Bytecode_iff_spec:
  "isBufferV8Bytecode (Buf buf) = isValidCache_spec buf"
  unfolding isValidCache_spec_def isBufferV8Bytecode_Buf by blast

theorem isBufferV8Bytecode_iff_spec_witness:
  "isBufferV8Bytecode (Buf [1, 0, 0xde, 0xc0, 7]) \<and> isValidCache_spec [1, 0, 0xde, 0xc0, 7]
   \<and> \<not> isBufferV8Bytecode (Buf [0, 0, 0xde, 0xc0, 7])"
  using isBufferV8Bytecode_iff_spec [of "[1, 0, 0xde, 0xc0, 7]"]
    isBufferV8Bytecode_iff_spec [of "[0, 0, 0xde, 0xc0, 7]"]
  by (simp add: isValidCache_spec_def)

text \<open>
  C10. A value that is not a Buffer, and a Buffer of fewer than four bytes, is classified
  as invalid: the validator has no failing path, and the range 2..4 of a short buffer has
  fewer than two bytes, so it differs from the marker.
\<close>

theorem isBufferV8Bytecode_short_or_not_buffer:
  "\<not> isBuffer v \<or> (\<exists>buf. v = Buf buf \<and> length buf < 4) \<Longrightarrow> isBufferV8Bytecode v = False"
  by (cases v) (auto simp: isBufferV8Bytecode_Buf simp del: isBufferV8Bytecode.simps(1))

theorem isBufferV8Bytecode_short_or_not_buffer_witness:
  "isBufferV8Bytecode (Str [0x61]) = False \<and> isBufferV8Bytecode Undefined = False
   \<and> isBufferV8Bytecode (Buf [1, 0, 0xde]) = False \<and> isBufferV8Bytecode (Buf []) = False"
  using isBufferV8Bytecode_short_or_not_buffer [of "Str [0x61]"]
    isBufferV8Bytecode_short_or_not_buffer [of Undefined]
    isBufferV8Bytecode_short_or_not_buffer [of "Buf [1, 0, 0xde]"]
    isBufferV8Bytecode_short_or_not_buffer [of "Buf []"]
  by simp

section \<open>The definitions on the example host\<close>

lemma ZERO_bytes: "ZERO_LENGTH_EXTERNAL_REFERENCE_TABLE = [0, 0]"
  by (simp add: ZERO_LENGTH_EXTERNAL_REFERENCE_TABLE_def numeral_2_eq_2)

lemmas validator_eval = subarray_def equals_def MAGIC_NUMBER_def ZERO_bytes

lemmas version_eval = process_version_def dec.simps digit_char_def node_8_8_or_8_9_def
  version_12_to_20_def version_def startsWith_def slice_def parseFloat_def is_digit_def
  digits_val_def digit_val_def

lemma example_host_bucket:
  "\<not> node_8_8_or_8_9 example_host" "version_12_to_20 example_host"
  by (simp_all add: example_host_def version_eval)

lemma legacy_host_bucket: "node_8_8_or_8_9 legacy_host"
  by (simp add: legacy_host_def example_host_def version_eval)

lemma newer_host_bucket:
  "\<not> node_8_8_or_8_9 newer_host" "\<not> version_12_to_20 newer_host"
  by (simp_all add: newer_host_def example_host_def version_eval)

lemma example_reference:
  "example_cache reference_source =
     [0x3c, 0x05, 0xde, 0xc0, 0x51, 0x4a, 0x9c, 0x7b, 5, 0, 0, 0, 0xa4, 0x77, 0x12, 0x3e,
      5, 0, 0, 0, 0x0f, 0x1e, 0x2d, 0x3c, 0x22, 0xa0, 0x5f, 0xa0, 0x22]"
  by (simp add: example_cache_def reference_source_def le32_def example_flags_def)

lemma example_compile_reference:
  "compileCode example_host (Str reference_source) Undefined =
     Inr (example_cache reference_source)"
  "compileCode legacy_host (Str reference_source) Undefined =
     Inr (example_cache reference_source)"
  "compileCode newer_host (Str reference_source) Undefined =
     Inr (example_cache reference_source)"
  by (simp_all add: compileCode_def example_host_def legacy_host_def newer_host_def)

lemma example_fixBytecode:
  "fixBytecode example_host (Buf foreign_cache) = Inr fixed_cache"
  "fixBytecode legacy_host (Buf foreign_cache) =
     Inr [0x3c, 0x05, 0xde, 0xc0, 0x51, 0x4a, 0x9c, 0x7b, 7, 0, 0, 0, 0x11, 0x22, 0x33, 0x44,
          5, 0, 0, 0, 0x0f, 0x1e, 0x2d, 0x3c, 0x76, 0x61, 0x72, 0x20, 0x78, 0x3d, 0x31]"
  "fixBytecode newer_host (Buf foreign_cache) =
     Inr [0x3c, 0x05, 0xde, 0xc0, 0x51, 0x4a, 0x9c, 0x7b, 7, 0, 0, 0, 0xa4, 0x77, 0x12, 0x3e,
          5, 0, 0, 0, 0x0f, 0x1e, 0x2d, 0x3c, 0x76, 0x61, 0x72, 0x20, 0x78, 0x3d, 0x31]"
  by (simp_all add: fixBytecode_def example_compile_reference example_host_bucket
      legacy_host_bucket newer_host_bucket example_reference copy_def subarray_def
      foreign_cache_def fixed_cache_def)

lemma foreign_cache_valid: "isBufferV8Bytecode (Buf foreign_cache)"
  by (simp add: foreign_cache_def validator_eval)

lemma example_readSourceHash:
  "readSourceHash example_host (Buf length_one_cache) = Inr 1"
  "readSourceHash example_host (Buf length_zero_cache) = Inr 0"
  "readSourceHash example_host (Buf foreign_cache) = Inr 7"
  by (simp_all add: readSourceHash_def example_host_bucket subarray_def length_one_cache_def
      length_zero_cache_def foreign_cache_def)

lemma length_one_fix:
  "fixBytecode example_host (Buf length_one_cache) = Inr length_one_cache"
  by (simp add: fixBytecode_def example_host_bucket
      example_compile_reference example_reference copy_def length_one_cache_def subarray_def)

lemma length_one_valid: "isBufferV8Bytecode (Buf length_one_cache)"
  by (simp add: length_one_cache_def validator_eval)

lemma length_zero_fix:
  "fixBytecode example_host (Buf length_zero_cache) = Inr length_zero_cache"
  by (simp add: fixBytecode_def example_host_bucket example_compile_reference
      example_reference copy_def length_zero_cache_def subarray_def)

lemma length_zero_valid: "isBufferV8Bytecode (Buf length_zero_cache)"
  by (simp add: length_zero_cache_def validator_eval)

lemma example_accepts_fixed:
  "\<not> vm_cachedDataRejected example_host
       [0x22, 0x200B, 0x200B, 0x200B, 0x200B, 0x200B, 0x22] fixed_cache"
  by (simp add: example_host_def subarray_def example_flags_def fixed_cache_def)

lemma example_accepts_zero: "\<not> vm_cachedDataRejected example_host [] length_zero_cache"
  by (simp add: example_host_def subarray_def example_flags_def length_zero_cache_def)

lemma concat_replicate_single: "concat (replicate n [x]) = replicate n x"
  by (induction n) simp_all

text \<open>
  The three outcomes of the placeholder: the empty text, \<open>RangeError\<close>, or the literal.
\<close>

lemma dummyCode_cases:
  "dummyCode h L =
     (if L \<le> 1 then Inr []
      else if max_string_length h < L then Inl RangeError
      else Inr ([0x22] @ replicate (L - 2) 0x200B @ [0x22]))"
  by (auto simp: dummyCode_def js_repeat_def js_concat_def concat_replicate_single)

lemma example_limit: "max_string_length example_host = 536870888"
  by (simp add: example_host_def)

lemma replicate_5: "replicate 5 x = [x, x, x, x, x]"
  by (simp add: numeral_eq_Suc)

lemma dummyCode_7:
  "dummyCode example_host 7 = Inr [0x22, 0x200B, 0x200B, 0x200B, 0x200B, 0x200B, 0x22]"
  by (simp add: dummyCode_cases example_limit replicate_5)

lemma dummyCode_0_1: "dummyCode h 0 = Inr []" "dummyCode h 1 = Inr []"
  by (simp_all add: dummyCode_cases)

lemma dummyCode_huge: "dummyCode example_host 4294967295 = Inl RangeError"
  by (simp add: dummyCode_cases example_limit)

lemma fixed_readSourceHash: "readSourceHash example_host (Buf fixed_cache) = Inr 7"
  by (simp add: readSourceHash_def example_host_bucket subarray_def fixed_cache_def)

lemma example_generateScript:
  "generateScript example_host (Buf foreign_cache) Undefined =
     Inr \<lparr>source = [0x22, 0x200B, 0x200B, 0x200B, 0x200B, 0x200B, 0x22],
          cachedData = fixed_cache, filename = Undefined\<rparr>"
  "generateScript example_host (Buf length_zero_cache) Undefined =
     Inr \<lparr>source = [], cachedData = length_zero_cache, filename = Undefined\<rparr>"
proof -
  show "generateScript example_host (Buf foreign_cache) Undefined =
     Inr \<lparr>source = [0x22, 0x200B, 0x200B, 0x200B, 0x200B, 0x200B, 0x22],
          cachedData = fixed_cache, filename = Undefined\<rparr>"
    unfolding generateScript_def
    by (simp only: foreign_cache_valid example_fixBytecode(1) fixed_readSourceHash
        dummyCode_7 example_accepts_fixed if_False if_True not_True_eq_False sum.case)
  show "generateScript example_host (Buf length_zero_cache) Undefined =
     Inr \<lparr>source = [], cachedData = length_zero_cache, filename = Undefined\<rparr>"
    unfolding generateScript_def
    by (simp only: length_zero_valid length_zero_fix example_readSourceHash(2)
        dummyCode_0_1 example_accepts_zero if_False if_True not_True_eq_False sum.case)
qed

lemma example_one_char:
  "compileCode example_host (Str one_char_source) Undefined
     = Inr (example_cache one_char_source)"
  "example_cache one_char_source =
     [0x3c, 0x05, 0xde, 0xc0, 0x51, 0x4a, 0x9c, 0x7b, 1, 0, 0, 0, 0xa4, 0x77, 0x12, 0x3e,
      1, 0, 0, 0, 0x0f, 0x1e, 0x2d, 0x3c, 0x31]"
  by (simp_all add: compileCode_def example_host_def example_cache_def one_char_source_def
      le32_def example_flags_def)

lemma one_char_eval:
  "isBufferV8Bytecode (Buf (example_cache one_char_source))"
  "fixBytecode example_host (Buf (example_cache one_char_source))
     = Inr (example_cache one_char_source)"
  "readSourceHash example_host (Buf (example_cache one_char_source)) = Inr 1"
  "vm_cachedDataRejected example_host [] (example_cache one_char_source)"
  "length one_char_source = 1"
      apply (simp add: example_one_char(2) validator_eval)
     apply (simp add: example_one_char(2) fixBytecode_def example_host_bucket
      example_compile_reference example_reference copy_def subarray_def)
    apply (simp add: example_one_char(2) readSourceHash_def example_host_bucket subarray_def)
   apply (simp add: example_one_char(2) example_host_def subarray_def)
  apply (simp add: one_char_source_def)
  done

lemma ten_bytes_invalid: "\<not> isBufferV8Bytecode (Buf ten_bytes)"
  "\<not> isBufferV8Bytecode (Buf (0x1b # ten_bytes))"
  by (simp_all add: ten_bytes_def validator_eval)

lemma example_decompress_eval:
  "brotliDecompressSync example_host (Buf ten_bytes) = Inl (HostError ''Decompression failed'')"
  "brotliDecompressSync example_host (Buf (0x1b # b)) = Inr b"
  by (simp_all add: example_host_def ten_bytes_def)

lemma example_executor:
  "compileElectronCode example_host (Str code) (Obj []) events =
     foldl (handle example_host (Obj [])) spawned events"
  "compileElectronCode example_host (Str code) (Bool True) events =
     foldl (handle example_host (Bool True)) spawned events"
  by (simp_all add: compileElectronCode_def example_host_def js_or_def)

lemmas handler_eval = spawned_def onEnd_def resolve_def reject_def Let_def

lemma ascii_a_js: "ascii ''a.js'' = [0x61, 0x2E, 0x6A, 0x73]"
  "ascii ''a.jsc'' = [0x61, 0x2E, 0x6A, 0x73, 0x63]"
  by (simp_all add: ascii_def)

lemma example_read: "readFileSync example_files (ascii ''a.js'') = Inr [0x31, 0x2b, 0x31]"
  by (simp add: readFileSync_def example_files_def)

lemma example_compiled_name:
  "slice_to_minus (ascii ''a.js'') (length (path_extname example_host (ascii ''a.js'')))
     @ COMPILED_EXTNAME = ascii ''a.jsc''"
  by (simp add: example_host_def slice_to_minus_def COMPILED_EXTNAME_def ascii_a_js)

lemma example_code:
  "utf8_decode example_host [0x31, 0x2b, 0x31] = ascii ''1+1''"
  "strip_sheBang (ascii ''1+1'') = ascii ''1+1''"
  by (simp_all add: example_host_def strip_sheBang_def ascii_def)

lemma example_executor_c:
  "compileElectronCode (example_host\<lparr>brotliCompressSync := c\<rparr>) (Str code) (Bool True) events
     = foldl (handle (example_host\<lparr>brotliCompressSync := c\<rparr>) (Bool True)) spawned events"
  by (simp add: compileElectronCode_def example_host_def js_or_def)

section \<open>Properties of the fixup\<close>

lemma copy_length: "length (copy s t k) = length t"
  by (auto simp: copy_def Let_def min_def)

lemma copy_nth:
  "i < length t \<Longrightarrow>
   copy s t k ! i = (if k \<le> i \<and> i < k + length s then s ! (i - k) else t ! i)"
  by (auto simp: copy_def Let_def nth_append min_def)

lemma copy_subarray_nth:
  "i < length t \<Longrightarrow>
   copy (subarray d s e) t s ! i = (if s \<le> i \<and> i < e \<and> i < length d then d ! i else t ! i)"
  by (auto simp: copy_nth subarray_def)

lemma subarray_nth:
  "e \<le> length b \<Longrightarrow> i < e - s \<Longrightarrow> subarray b s e ! i = b ! (s + i)"
  by (simp add: subarray_def)

lemma subarray_length: "e \<le> length b \<Longrightarrow> length (subarray b s e) = e - s"
  by (simp add: subarray_def)

lemma subarray_eqI:
  assumes "e \<le> length a" "e \<le> length b" "\<And>i. s \<le> i \<Longrightarrow> i < e \<Longrightarrow> a ! i = b ! i"
  shows "subarray a s e = subarray b s e"
proof (rule nth_equalityI)
  show "length (subarray a s e) = length (subarray b s e)"
    using assms(1,2) by (simp add: subarray_length)
next
  fix i assume "i < length (subarray a s e)"
  then have i: "i < e - s" using assms(1) by (simp add: subarray_length)
  then show "subarray a s e ! i = subarray b s e ! i"
    using assms by (simp add: subarray_nth)
qed

lemma fixBytecode_length:
  "fixBytecode h (Buf target) = Inr fixed \<Longrightarrow> length fixed = length target"
  by (auto simp: fixBytecode_def copy_length split: sum.splits if_splits)

text \<open>
  Byte by byte: after the fixup, an offset that the branch names holds the byte of the
  reference when the reference has one there, and every other offset holds what it held.
\<close>

lemma fixBytecode_nth:
  assumes "fixBytecode h (Buf target) = Inr fixed"
    and "compileCode h (Str reference_source) Undefined = Inr dummy"
    and "i < length target"
  shows "fixed ! i =
           (if i \<in> patched_offsets h \<and> i < length dummy then dummy ! i else target ! i)"
proof -
  consider (legacy) "node_8_8_or_8_9 h"
    | (modern) "\<not> node_8_8_or_8_9 h" "version_12_to_20 h"
    | (other) "\<not> node_8_8_or_8_9 h" "\<not> version_12_to_20 h"
    by blast
  then show ?thesis
  proof cases
    case legacy
    with assms(1,2) have "fixed = copy (subarray dummy 20 24)
        (copy (subarray dummy 16 20) target 16) 20"
      by (simp add: fixBytecode_def)
    with legacy assms(3) show ?thesis
      by (auto simp: copy_subarray_nth copy_length patched_offsets_def)
  next
    case modern
    with assms(1,2) have "fixed = copy (subarray dummy 12 16) target 12"
      by (simp add: fixBytecode_def)
    with modern assms(3) show ?thesis
      by (auto simp: copy_subarray_nth patched_offsets_def)
  next
    case other
    with assms(1,2) have "fixed = copy (subarray dummy 16 20)
        (copy (subarray dummy 12 16) target 12) 16"
      by (simp add: fixBytecode_def)
    with other assms(3) show ?thesis
      by (auto simp: copy_subarray_nth copy_length patched_offsets_def)
  qed
qed

lemma fixBytecode_reference:
  "fixBytecode h (Buf target) = Inr fixed \<Longrightarrow>
   \<exists>dummy. compileCode h (Str reference_source) Undefined = Inr dummy"
  by (cases "compileCode h (Str reference_source) Undefined") (simp_all add: fixBytecode_def)

lemma fixBytecode_subarray:
  assumes fixd: "fixBytecode h (Buf target) = Inr fixed"
    and ref: "compileCode h (Str reference_source) Undefined = Inr dummy"
    and range: "{s..<e} \<subseteq> patched_offsets h"
    and len: "e \<le> length target" "e \<le> length dummy"
  shows "subarray fixed s e = subarray dummy s e"
proof (rule subarray_eqI)
  show "e \<le> length fixed" using fixd len(1) by (simp add: fixBytecode_length)
  show "e \<le> length dummy" by (rule len(2))
next
  fix i assume i: "s \<le> i" "i < e"
  then have "i \<in> patched_offsets h" using range by auto
  moreover have "i < length target" "i < length dummy" using i len by simp_all
  ultimately show "fixed ! i = dummy ! i"
    using fixBytecode_nth [OF fixd ref] by simp
qed

text \<open>
  C2, as stated, fails on a buffer that the validator accepts and that ends before the
  patched range: \<open>copy\<close> writes nothing past the end of its target, so the four-byte
  buffer is unchanged and its range 12 to 16 is empty, while the reference has four
  bytes there.
\<close>

theorem fixBytecode_short_buffer_counterexample:
  "isBufferV8Bytecode (Buf short_cache) \<and>
   \<not> node_8_8_or_8_9 example_host \<and> version_12_to_20 example_host \<and>
   compileCode example_host (Str reference_source) Undefined
     = Inr (example_cache reference_source) \<and>
   fixBytecode example_host (Buf short_cache) = Inr short_cache \<and>
   subarray short_cache 12 16 = [] \<and>
   subarray (example_cache reference_source) 12 16 = [0xa4, 0x77, 0x12, 0x3e] \<and>
   subarray short_cache 12 16 \<noteq> subarray (example_cache reference_source) 12 16"
  by (simp add: example_host_bucket example_compile_reference fixBytecode_def
      example_reference short_cache_def copy_def validator_eval)

text \<open>
  C2, amended. For a buffer that the validator accepts, when both the buffer and the
  freshly compiled reference reach the end of the patched ranges of the running
  version (24 bytes under Node 8.8 and 8.9, 16 bytes when the parsed version is
  between 12 and 20, 20 bytes otherwise), the patched ranges of the buffer after
  \<open>fixBytecode\<close> equal the same ranges of the reference. The buffer keeps its length,
  so a shorter buffer does not have the bytes it lacked before.
\<close>

theorem fixBytecode_patched_ranges:
  assumes "isBufferV8Bytecode (Buf target)"
    and "fixBytecode h (Buf target) = Inr fixed"
    and "compileCode h (Str reference_source) Undefined = Inr dummy"
  shows "length fixed = length target \<and>
         (node_8_8_or_8_9 h \<and> 24 \<le> length target \<and> 24 \<le> length dummy \<longrightarrow>
            subarray fixed 16 20 = subarray dummy 16 20 \<and>
            subarray fixed 20 24 = subarray dummy 20 24) \<and>
         (\<not> node_8_8_or_8_9 h \<and> version_12_to_20 h \<and>
            16 \<le> length target \<and> 16 \<le> length dummy \<longrightarrow>
            subarray fixed 12 16 = subarray dummy 12 16) \<and>
         (\<not> node_8_8_or_8_9 h \<and> \<not> version_12_to_20 h \<and>
            20 \<le> length target \<and> 20 \<le> length dummy \<longrightarrow>
            subarray fixed 12 16 = subarray dummy 12 16 \<and>
            subarray fixed 16 20 = subarray dummy 16 20)"
proof (intro conjI impI)
  show "length fixed = length target" using assms(2) by (rule fixBytecode_length)
next
  assume a: "node_8_8_or_8_9 h \<and> 24 \<le> length target \<and> 24 \<le> length dummy"
  then have p: "{16..<20} \<subseteq> patched_offsets h" "{20..<24} \<subseteq> patched_offsets h"
    by (simp_all add: patched_offsets_def)
  from a show "subarray fixed 16 20 = subarray dummy 16 20"
    by (intro fixBytecode_subarray [OF assms(2,3) p(1)]) simp_all
  from a show "subarray fixed 20 24 = subarray dummy 20 24"
    by (intro fixBytecode_subarray [OF assms(2,3) p(2)]) simp_all
next
  assume a: "\<not> node_8_8_or_8_9 h \<and> version_12_to_20 h \<and>
     16 \<le> length target \<and> 16 \<le> length dummy"
  then have p: "{12..<16} \<subseteq> patched_offsets h"
    by (simp add: patched_offsets_def)
  from a show "subarray fixed 12 16 = subarray dummy 12 16"
    by (intro fixBytecode_subarray [OF assms(2,3) p]) simp_all
next
  assume a: "\<not> node_8_8_or_8_9 h \<and> \<not> version_12_to_20 h \<and>
     20 \<le> length target \<and> 20 \<le> length dummy"
  then have p: "{12..<16} \<subseteq> patched_offsets h" "{16..<20} \<subseteq> patched_offsets h"
    by (simp_all add: patched_offsets_def)
  from a show "subarray fixed 12 16 = subarray dummy 12 16"
    by (intro fixBytecode_subarray [OF assms(2,3) p(1)]) simp_all
  from a show "subarray fixed 16 20 = subarray dummy 16 20"
    by (intro fixBytecode_subarray [OF assms(2,3) p(2)]) simp_all
qed

theorem fixBytecode_patched_ranges_witness:
  "isBufferV8Bytecode (Buf foreign_cache) \<and>
   24 \<le> length foreign_cache \<and> 24 \<le> length (example_cache reference_source) \<and>
   (\<exists>fixed. fixBytecode example_host (Buf foreign_cache) = Inr fixed \<and>
      \<not> node_8_8_or_8_9 example_host \<and> version_12_to_20 example_host \<and>
      subarray fixed 12 16 = subarray (example_cache reference_source) 12 16) \<and>
   (\<exists>fixed. fixBytecode legacy_host (Buf foreign_cache) = Inr fixed \<and>
      node_8_8_or_8_9 legacy_host \<and>
      subarray fixed 16 20 = subarray (example_cache reference_source) 16 20 \<and>
      subarray fixed 20 24 = subarray (example_cache reference_source) 20 24) \<and>
   (\<exists>fixed. fixBytecode newer_host (Buf foreign_cache) = Inr fixed \<and>
      \<not> node_8_8_or_8_9 newer_host \<and> \<not> version_12_to_20 newer_host \<and>
      subarray fixed 12 16 = subarray (example_cache reference_source) 12 16 \<and>
      subarray fixed 16 20 = subarray (example_cache reference_source) 16 20)"
proof -
  have len: "24 \<le> length foreign_cache" "24 \<le> length (example_cache reference_source)"
    by (simp_all add: foreign_cache_def example_reference)
  show ?thesis
    using len foreign_cache_valid example_host_bucket legacy_host_bucket newer_host_bucket
      fixBytecode_patched_ranges [OF foreign_cache_valid example_fixBytecode(1)
        example_compile_reference(1)]
      fixBytecode_patched_ranges [OF foreign_cache_valid example_fixBytecode(2)
        example_compile_reference(2)]
      fixBytecode_patched_ranges [OF foreign_cache_valid example_fixBytecode(3)
        example_compile_reference(3)]
    by (simp add: example_fixBytecode)
qed

text \<open>
  C9. \<open>fixBytecode\<close> keeps the length of the buffer and every byte at an offset outside
  the ranges of the running version's branch; and the two loads, \<open>runBytecodeFile\<close> and
  the \<open>.jsc\<close> handler, return the files as they found them: they read the file into a
  fresh buffer and never write.
\<close>

theorem fixBytecode_frame:
  "(fixBytecode h (Buf target) = Inr fixed \<longrightarrow>
      length fixed = length target \<and>
      (\<forall>i < length target. i \<notin> patched_offsets h \<longrightarrow> fixed ! i = target ! i)) \<and>
   snd (runBytecodeFile h fs fname) = fs \<and>
   snd (jsc_extension h fs name) = fs"
proof (intro conjI impI allI)
  assume fixd: "fixBytecode h (Buf target) = Inr fixed"
  then show "length fixed = length target" by (rule fixBytecode_length)
  fix i assume "i < length target" "i \<notin> patched_offsets h"
  moreover obtain dummy where "compileCode h (Str reference_source) Undefined = Inr dummy"
    using fixBytecode_reference [OF fixd] by blast
  ultimately show "fixed ! i = target ! i"
    using fixBytecode_nth [OF fixd] by simp
next
  show "snd (runBytecodeFile h fs fname) = fs"
    by (simp add: runBytecodeFile_def split: jsval.split sum.split)
  show "snd (jsc_extension h fs name) = fs"
    by (simp add: jsc_extension_def split: sum.split)
qed

theorem fixBytecode_frame_witness:
  "(\<exists>fixed. fixBytecode example_host (Buf foreign_cache) = Inr fixed \<and>
      length fixed = length foreign_cache \<and>
      8 < length foreign_cache \<and> 8 \<notin> patched_offsets example_host \<and>
      fixed ! 8 = foreign_cache ! 8 \<and> fixed ! 12 \<noteq> foreign_cache ! 12) \<and>
   snd (runBytecodeFile example_host compiled_files (Str (ascii ''a.jsc''))) = compiled_files \<and>
   snd (jsc_extension example_host compiled_files (ascii ''a.jsc'')) = compiled_files"
  using fixBytecode_frame [of example_host foreign_cache _ compiled_files
      "Str (ascii ''a.jsc'')" "ascii ''a.jsc''"] example_fixBytecode(1)
  by (simp add: patched_offsets_def example_host_bucket foreign_cache_def fixed_cache_def)

section \<open>Properties of the rehydrator\<close>

text \<open>The declared length is a number of four bytes.\<close>

lemma reduce_bound:
  "reduce acc pw bs + 256 ^ pw \<le> acc + 256 ^ (pw + length bs)"
proof (induction bs arbitrary: acc pw)
  case Nil
  then show ?case by simp
next
  case (Cons b bs)
  have ub: "unat b * 256 ^ pw + 256 ^ pw \<le> (256 :: nat) * 256 ^ pw"
  proof -
    have "unat b < 256" using unsigned_less [of b, where 'a = nat] by simp
    then have "unat b + 1 \<le> 256" by simp
    then have "(unat b + 1) * 256 ^ pw \<le> (256 :: nat) * 256 ^ pw"
      by (rule mult_le_mono1)
    then show ?thesis by (simp add: algebra_simps)
  qed
  from Cons.IH [of "acc + unat b * 256 ^ pw" "Suc pw"]
  have ih: "reduce (acc + unat b * 256 ^ pw) (Suc pw) bs + 256 * 256 ^ pw
          \<le> acc + unat b * 256 ^ pw + 256 * 256 ^ (pw + length bs)"
    by simp
  have "reduce (acc + unat b * 256 ^ pw) (Suc pw) bs + 256 ^ pw
          \<le> acc + 256 * 256 ^ (pw + length bs)"
    using ub ih by linarith
  then show ?case by simp
qed

lemma readSourceHash_bound:
  "readSourceHash h (Buf b) = Inr L \<Longrightarrow> L < 2 ^ 32"
proof -
  assume a: "readSourceHash h (Buf b) = Inr L"
  have *: "reduce 0 0 (subarray b s (s + 4)) < 2 ^ 32" for s
  proof -
    have "length (subarray b s (s + 4)) \<le> 4" by (simp add: subarray_def)
    then have "(256::nat) ^ length (subarray b s (s + 4)) \<le> 256 ^ 4"
      by (intro power_increasing) simp_all
    moreover have "reduce 0 0 (subarray b s (s + 4)) + 1
        \<le> 256 ^ length (subarray b s (s + 4))"
      using reduce_bound [of 0 0 "subarray b s (s + 4)"] by simp
    ultimately show ?thesis by simp
  qed
  from a *[of 12] *[of 8] show ?thesis
    by (auto simp: readSourceHash_def split: if_splits)
qed

lemma generateScript_valid:
  assumes "isBufferV8Bytecode (Buf b)"
    and "fixBytecode h (Buf b) = Inr fixed"
    and "readSourceHash h (Buf fixed) = Inr L"
  shows "generateScript h (Buf b) f =
           (case dummyCode h L of
              Inl e \<Rightarrow> Inl e
            | Inr code \<Rightarrow>
                if vm_cachedDataRejected h code fixed then
                  Inl (Error ''Invalid or incompatible cached data (cachedDataRejected)'')
                else Inr \<lparr>source = code, cachedData = fixed, filename = f\<rparr>)"
  using assms by (simp add: generateScript_def del: isBufferV8Bytecode.simps)

lemma huge_length_eval:
  "isBufferV8Bytecode (Buf huge_length_cache)"
  "fixBytecode example_host (Buf huge_length_cache) = Inr huge_length_cache"
  "readSourceHash example_host (Buf huge_length_cache) = Inr 4294967295"
  by (simp_all add: huge_length_cache_def validator_eval fixBytecode_def example_host_bucket
      example_compile_reference example_reference copy_def readSourceHash_def)

text \<open>
  C3, as stated, fails at both ends. At the declared length 1 the guard \<open>length > 1\<close>
  is false, so the placeholder is the empty text, which has no code unit, not one. At
  a declared length beyond the engine's strings (the field holds up to
  \<open>2 ^ 32 - 1\<close>) \<open>repeat\<close> throws \<open>RangeError\<close> and there is no placeholder.
\<close>

theorem placeholder_length_one_counterexample:
  "isBufferV8Bytecode (Buf length_one_cache) \<and>
   fixBytecode example_host (Buf length_one_cache) = Inr length_one_cache \<and>
   readSourceHash example_host (Buf length_one_cache) = Inr 1 \<and>
   dummyCode example_host 1 = Inr [] \<and> length ([] :: jsstring) \<noteq> 1 \<and>
   isBufferV8Bytecode (Buf huge_length_cache) \<and>
   fixBytecode example_host (Buf huge_length_cache) = Inr huge_length_cache \<and>
   readSourceHash example_host (Buf huge_length_cache) = Inr 4294967295 \<and>
   dummyCode example_host 4294967295 = Inl RangeError \<and>
   generateScript example_host (Buf huge_length_cache) Undefined = Inl RangeError"
  using length_one_fix length_one_valid example_readSourceHash(1) huge_length_eval
    dummyCode_huge dummyCode_0_1(2) [of example_host]
    generateScript_valid [OF huge_length_eval, of Undefined]
  by simp

text \<open>
  C3, amended. For every declared source length \<open>L\<close>: when \<open>L \<le> 1\<close> the placeholder
  is the empty text (no code unit, so \<open>L\<close> code units only for \<open>L = 0\<close>); when
  \<open>2 \<le> L\<close> and \<open>L\<close> is within the engine's string limit, it is a string literal of
  exactly \<open>L\<close> code units, a quote, \<open>L - 2\<close> zero-width spaces and a quote; when
  \<open>L\<close> is beyond the limit there is no placeholder and the rehydrator fails with
  \<open>RangeError\<close>. For a valid buffer whose fixed copy declares \<open>L\<close>, \<open>L\<close> is below
  \<open>2 ^ 32\<close> and this outcome of \<open>dummyCode\<close> is what \<open>generateScript\<close> hands to the
  engine, or fails with.
\<close>

theorem placeholder_length:
  "(L \<le> 1 \<longrightarrow> dummyCode h L = Inr []) \<and>
   (2 \<le> L \<and> L \<le> max_string_length h \<longrightarrow>
      dummyCode h L = Inr ([0x22] @ replicate (L - 2) 0x200B @ [0x22]) \<and>
      length ([0x22] @ replicate (L - 2) (0x200B :: code_unit) @ [0x22]) = L) \<and>
   (2 \<le> L \<and> max_string_length h < L \<longrightarrow> dummyCode h L = Inl RangeError) \<and>
   (isBufferV8Bytecode (Buf b) \<and> fixBytecode h (Buf b) = Inr fixed \<and>
    readSourceHash h (Buf fixed) = Inr L \<longrightarrow>
      L < 2 ^ 32 \<and>
      generateScript h (Buf b) f =
        (case dummyCode h L of
           Inl e \<Rightarrow> Inl e
         | Inr code \<Rightarrow>
             if vm_cachedDataRejected h code fixed then
               Inl (Error ''Invalid or incompatible cached data (cachedDataRejected)'')
             else Inr \<lparr>source = code, cachedData = fixed, filename = f\<rparr>))"
proof (intro conjI impI)
  assume "L \<le> 1"
  then show "dummyCode h L = Inr []" by (simp add: dummyCode_cases)
next
  assume a: "2 \<le> L \<and> L \<le> max_string_length h"
  then show "dummyCode h L = Inr ([0x22] @ replicate (L - 2) 0x200B @ [0x22])"
    by (simp add: dummyCode_cases)
  from a show "length ([0x22] @ replicate (L - 2) (0x200B :: code_unit) @ [0x22]) = L"
    by auto
next
  assume "2 \<le> L \<and> max_string_length h < L"
  then show "dummyCode h L = Inl RangeError" by (simp add: dummyCode_cases)
next
  assume a: "isBufferV8Bytecode (Buf b) \<and> fixBytecode h (Buf b) = Inr fixed \<and>
    readSourceHash h (Buf fixed) = Inr L"
  then show "L < 2 ^ 32" using readSourceHash_bound [of h fixed L] by blast
  from a show "generateScript h (Buf b) f =
        (case dummyCode h L of
           Inl e \<Rightarrow> Inl e
         | Inr code \<Rightarrow>
             if vm_cachedDataRejected h code fixed then
               Inl (Error ''Invalid or incompatible cached data (cachedDataRejected)'')
             else Inr \<lparr>source = code, cachedData = fixed, filename = f\<rparr>)"
    using generateScript_valid [of b h fixed L f] by blast
qed

theorem placeholder_length_witness:
  "dummyCode example_host 0 = Inr [] \<and> dummyCode example_host 1 = Inr [] \<and>
   (2::nat) \<le> 7 \<and> 7 \<le> max_string_length example_host \<and>
   dummyCode example_host 7 = Inr [0x22, 0x200B, 0x200B, 0x200B, 0x200B, 0x200B, 0x22] \<and>
   length [0x22, 0x200B, 0x200B, 0x200B, 0x200B, 0x200B, 0x22 :: code_unit] = 7 \<and>
   max_string_length example_host < 4294967295 \<and>
   dummyCode example_host 4294967295 = Inl RangeError \<and>
   isBufferV8Bytecode (Buf foreign_cache) \<and>
   fixBytecode example_host (Buf foreign_cache) = Inr fixed_cache \<and>
   readSourceHash example_host (Buf fixed_cache) = Inr 7 \<and>
   generateScript example_host (Buf foreign_cache) Undefined =
     Inr \<lparr>source = [0x22, 0x200B, 0x200B, 0x200B, 0x200B, 0x200B, 0x22],
          cachedData = fixed_cache, filename = Undefined\<rparr> \<and>
   generateScript example_host (Buf huge_length_cache) Undefined = Inl RangeError"
proof -
  have lim: "(2::nat) \<le> 7 \<and> 7 \<le> max_string_length example_host"
    "(2::nat) \<le> 4294967295 \<and> max_string_length example_host < 4294967295"
    by (simp_all add: example_limit)
  have small: "(0::nat) \<le> 1" "(1::nat) \<le> 1" by simp_all
  note w0 = placeholder_length [of 0 example_host, THEN conjunct1, rule_format, OF small(1)]
  note w1 = placeholder_length [of 1 example_host, THEN conjunct1, rule_format, OF small(2)]
  note w7 = placeholder_length [of 7 example_host foreign_cache fixed_cache Undefined]
  note wh = placeholder_length [of 4294967295 example_host huge_length_cache
      huge_length_cache Undefined]
  from w7 lim(1) have d7: "dummyCode example_host 7 =
      Inr ([0x22] @ replicate (7 - 2) 0x200B @ [0x22])"
    by blast
  from w7 foreign_cache_valid example_fixBytecode(1) fixed_readSourceHash
  have g7: "generateScript example_host (Buf foreign_cache) Undefined =
        (case dummyCode example_host 7 of
           Inl e \<Rightarrow> Inl e
         | Inr code \<Rightarrow>
             if vm_cachedDataRejected example_host code fixed_cache then
               Inl (Error ''Invalid or incompatible cached data (cachedDataRejected)'')
             else Inr \<lparr>source = code, cachedData = fixed_cache, filename = Undefined\<rparr>)"
    by blast
  from wh lim(2) have dh: "dummyCode example_host 4294967295 = Inl RangeError"
    by blast
  from wh huge_length_eval
  have gh: "generateScript example_host (Buf huge_length_cache) Undefined =
        (case dummyCode example_host 4294967295 of
           Inl e \<Rightarrow> Inl e
         | Inr code \<Rightarrow>
             if vm_cachedDataRejected example_host code huge_length_cache then
               Inl (Error ''Invalid or incompatible cached data (cachedDataRejected)'')
             else Inr \<lparr>source = code, cachedData = huge_length_cache,
                       filename = Undefined\<rparr>)"
    by blast
  have acc: "\<not> vm_cachedDataRejected example_host
       ([0x22] @ replicate (7 - 2) 0x200B @ [0x22]) fixed_cache"
    using example_accepts_fixed by (simp add: replicate_5)
  show ?thesis
    using w0 w1 lim foreign_cache_valid example_fixBytecode(1) fixed_readSourceHash
    by (simp add: g7 gh d7 dh acc replicate_5 example_accepts_fixed)
qed

text \<open>
  C1. The round trip fails for every source of one code unit, such as \<open>1\<close>. When the
  engine declares the length of the source in the cache, and rejects a cache offered
  with a text of another length, the placeholder for the declared length 1 is the empty
  text, the engine rejects the cache, and \<open>generateScript\<close> and \<open>runBytecode\<close> throw
  where the claim has a compiled unit that runs like the source.
\<close>

theorem runBytecode_one_char_source:
  assumes "length S = 1"
    and "compileCode h (Str S) Undefined = Inr cache"
    and "isBufferV8Bytecode (Buf cache)"
    and "fixBytecode h (Buf cache) = Inr fixed"
    and "readSourceHash h (Buf fixed) = Inr (length S)"
    and "vm_cachedDataRejected h [] fixed"
  shows "generateScript h (Buf cache) f
           = Inl (Error ''Invalid or incompatible cached data (cachedDataRejected)'') \<and>
         runBytecode h (Buf cache)
           = Inl (Error ''Invalid or incompatible cached data (cachedDataRejected)'')"
proof -
  from assms(1,5) have one: "readSourceHash h (Buf fixed) = Inr 1" by simp
  have g: "generateScript h (Buf cache) f
      = Inl (Error ''Invalid or incompatible cached data (cachedDataRejected)'')" for f
    using generateScript_valid [OF assms(3,4) one, of f] assms(6) dummyCode_0_1(2) [of h]
    by simp
  then show ?thesis by (simp add: runBytecode_def)
qed

theorem runBytecode_one_char_source_witness:
  "length one_char_source = 1 \<and>
   compileCode example_host (Str one_char_source) Undefined
     = Inr (example_cache one_char_source) \<and>
   isBufferV8Bytecode (Buf (example_cache one_char_source)) \<and>
   readSourceHash example_host (Buf (example_cache one_char_source)) = Inr 1 \<and>
   dummyCode example_host 1 = Inr [] \<and>
   vm_cachedDataRejected example_host [] (example_cache one_char_source) \<and>
   generateScript example_host (Buf (example_cache one_char_source)) Undefined
     = Inl (Error ''Invalid or incompatible cached data (cachedDataRejected)'') \<and>
   runBytecode example_host (Buf (example_cache one_char_source))
     = Inl (Error ''Invalid or incompatible cached data (cachedDataRejected)'')"
proof -
  have declared: "readSourceHash example_host (Buf (example_cache one_char_source))
      = Inr (length one_char_source)"
    using one_char_eval(3,5) by simp
  show ?thesis
    using runBytecode_one_char_source [OF one_char_eval(5) example_one_char(1)
        one_char_eval(1,2) declared one_char_eval(4), of Undefined]
      one_char_eval example_one_char(1) dummyCode_0_1(2) [of example_host]
    by simp
qed

text \<open>
  C7, as stated, fails on ten bytes that are no Brotli stream: the error of the failed
  decompression leaves \<open>generateScript\<close> as it is, before any second check, and it is
  not the assertion error \<open>Invalid bytecode buffer\<close>.
\<close>

theorem generateScript_ten_bytes_counterexample:
  "\<not> isBufferV8Bytecode (Buf ten_bytes) \<and>
   brotliDecompressSync example_host (Buf ten_bytes) = Inl (HostError ''Decompression failed'') \<and>
   generateScript example_host (Buf ten_bytes) Undefined
     = Inl (HostError ''Decompression failed'') \<and>
   generateScript example_host (Buf ten_bytes) Undefined
     \<noteq> Inl (AssertionError ''Invalid bytecode buffer'')"
  using ten_bytes_invalid(1)
  by (simp add: generateScript_def example_decompress_eval del: isBufferV8Bytecode.simps)

text \<open>
  C7, amended. A value that fails the format check is handed to Brotli decompression.
  When decompression throws, its error is the result and nothing is checked again;
  when it returns a buffer that fails the check, the result is the assertion error
  \<open>Invalid bytecode buffer\<close>; when it returns a valid cache, loading goes on with it.
\<close>

theorem generateScript_invalid_buffer:
  assumes "\<not> isBufferV8Bytecode v"
  shows "(brotliDecompressSync h v = Inl e \<longrightarrow> generateScript h v f = Inl e) \<and>
         (brotliDecompressSync h v = Inr d \<and> \<not> isBufferV8Bytecode (Buf d) \<longrightarrow>
            generateScript h v f = Inl (AssertionError ''Invalid bytecode buffer'')) \<and>
         (brotliDecompressSync h v = Inr d \<and> isBufferV8Bytecode (Buf d) \<longrightarrow>
            generateScript h v f = generateScript h (Buf d) f)"
  using assms by (simp add: generateScript_def)

theorem generateScript_invalid_buffer_witness:
  "\<not> isBufferV8Bytecode (Buf ten_bytes) \<and>
   generateScript example_host (Buf ten_bytes) Undefined
     = Inl (HostError ''Decompression failed'') \<and>
   \<not> isBufferV8Bytecode (Buf (0x1b # ten_bytes)) \<and>
   brotliDecompressSync example_host (Buf (0x1b # ten_bytes)) = Inr ten_bytes \<and>
   generateScript example_host (Buf (0x1b # ten_bytes)) Undefined
     = Inl (AssertionError ''Invalid bytecode buffer'') \<and>
   \<not> isBufferV8Bytecode (Buf (0x1b # foreign_cache)) \<and>
   brotliDecompressSync example_host (Buf (0x1b # foreign_cache)) = Inr foreign_cache \<and>
   isBufferV8Bytecode (Buf foreign_cache) \<and>
   generateScript example_host (Buf (0x1b # foreign_cache)) Undefined
     = generateScript example_host (Buf foreign_cache) Undefined"
proof -
  have c: "\<not> isBufferV8Bytecode (Buf (0x1b # foreign_cache))"
    by (simp add: foreign_cache_def validator_eval)
  show ?thesis
    using generateScript_invalid_buffer [OF ten_bytes_invalid(1), where h = example_host
        and e = "HostError ''Decompression failed''" and f = Undefined]
      generateScript_invalid_buffer [OF ten_bytes_invalid(2), where h = example_host
        and d = ten_bytes and f = Undefined]
      generateScript_invalid_buffer [OF c, where h = example_host and d = foreign_cache
        and f = Undefined]
      ten_bytes_invalid c foreign_cache_valid
    by (simp add: example_decompress_eval del: isBufferV8Bytecode.simps)
qed

section \<open>Properties of the cross-runtime compiler\<close>

lemma handle_settled:
  "promise st \<noteq> Pending \<Longrightarrow> promise (handle h opts st e) = promise st"
  by (cases e; cases "promise st") (simp_all add: onEnd_def resolve_def reject_def Let_def)

lemma foldl_handle_settled:
  "promise st \<noteq> Pending \<Longrightarrow> promise (foldl (handle h opts) st es) = promise st"
  by (induction es arbitrary: st) (simp_all add: handle_settled)

lemma onEnd_pending:
  "promise st = Pending \<Longrightarrow>
   promise (onEnd h opts st) =
     Resolved (if truthy (get_prop opts ''compress'') then brotliCompressSync h (data st)
               else data st)"
  by (simp add: onEnd_def resolve_def Let_def)

lemma foldl_handle_resolved:
  assumes "promise st = Pending"
    and "promise (foldl (handle h opts) st es) = Resolved d"
  shows "\<exists>pre e post. es = pre @ e # post \<and> (e = StdoutEnd \<or> is_exit e) \<and>
           (\<forall>x \<in> set pre. x \<noteq> StdoutEnd \<and> \<not> is_exit x \<and> \<not> is_child_error x) \<and>
           d = (if truthy (get_prop opts ''compress'')
                then brotliCompressSync h (data st @ stdout_chunks pre)
                else data st @ stdout_chunks pre)"
  using assms
proof (induction es arbitrary: st)
  case Nil
  then show ?case by simp
next
  case (Cons x xs)
  let ?st' = "handle h opts st x"
  have run: "promise (foldl (handle h opts) ?st' xs) = Resolved d"
    using Cons.prems(2) by simp
  show ?case
  proof (cases "x = StdoutEnd \<or> is_exit x")
    case True
    then have "?st' = onEnd h opts st" by (cases x) auto
    then have "promise ?st' = Resolved (if truthy (get_prop opts ''compress'')
        then brotliCompressSync h (data st) else data st)"
      using Cons.prems(1) by (simp add: onEnd_pending)
    with run have "d = (if truthy (get_prop opts ''compress'')
        then brotliCompressSync h (data st) else data st)"
      using foldl_handle_settled [of ?st' h opts xs] by simp
    with True have "x # xs = [] @ x # xs \<and> (x = StdoutEnd \<or> is_exit x) \<and>
           (\<forall>y \<in> set []. y \<noteq> StdoutEnd \<and> \<not> is_exit y \<and> \<not> is_child_error y) \<and>
           d = (if truthy (get_prop opts ''compress'')
                then brotliCompressSync h (data st @ stdout_chunks [])
                else data st @ stdout_chunks [])"
      by simp
    then show ?thesis by blast
  next
    case False
    show ?thesis
    proof (cases "is_child_error x")
      case True
      then obtain err where "x = ChildError err" by (cases x) auto
      then have "promise ?st' = Rejected err"
        using Cons.prems(1) by (simp add: reject_def)
      with run show ?thesis
        using foldl_handle_settled [of ?st' h opts xs] by simp
    next
      case nerr: False
      from False nerr have pend: "promise ?st' = Pending"
        using Cons.prems(1) by (cases x) auto
      from False nerr have dat: "data ?st' @ stdout_chunks pre = data st @ stdout_chunks (x # pre)"
        for pre by (cases x) auto
      from Cons.IH [OF pend run] obtain pre e post where
        *: "xs = pre @ e # post" "e = StdoutEnd \<or> is_exit e"
        "\<forall>y \<in> set pre. y \<noteq> StdoutEnd \<and> \<not> is_exit y \<and> \<not> is_child_error y"
        "d = (if truthy (get_prop opts ''compress'')
                then brotliCompressSync h (data ?st' @ stdout_chunks pre)
                else data ?st' @ stdout_chunks pre)"
        by blast
      from * False nerr have "x # xs = (x # pre) @ e # post \<and> (e = StdoutEnd \<or> is_exit e) \<and>
           (\<forall>y \<in> set (x # pre). y \<noteq> StdoutEnd \<and> \<not> is_exit y \<and> \<not> is_child_error y) \<and>
           d = (if truthy (get_prop opts ''compress'')
                then brotliCompressSync h (data st @ stdout_chunks (x # pre))
                else data st @ stdout_chunks (x # pre))"
        unfolding dat [symmetric] by auto
      then show ?thesis by blast
    qed
  qed
qed

lemma compileElectronCode_cases:
  "(\<exists>e. \<forall>es. compileElectronCode h c opts es = thrown e) \<or>
   (\<forall>es. compileElectronCode h c opts es = foldl (handle h (js_or opts (Obj []))) spawned es)"
proof (cases "require_electron h")
  case (Inl e)
  then have "\<forall>es. compileElectronCode h c opts es = thrown e"
    by (simp add: compileElectronCode_def)
  then show ?thesis by blast
next
  case (Inr electronExecutablePath)
  let ?options = "js_or opts (Obj [])"
  let ?path = "if truthy (get_prop ?options ''electronPath'') then
                 (case get_prop ?options ''electronPath'' of
                    Str p \<Rightarrow> Inr (path_normalize h p)
                  | _ \<Rightarrow> Inl TypeError)
               else Inr electronExecutablePath"
  show ?thesis
  proof (cases ?path)
    case (Inl e)
    with Inr have "\<forall>es. compileElectronCode h c opts es = thrown e"
      by (simp add: compileElectronCode_def Let_def)
    then show ?thesis by blast
  next
    case path: (Inr electronPath)
    show ?thesis
    proof (cases "existsSync h electronPath")
      case False
      with Inr path
      have "\<forall>es. compileElectronCode h c opts es = thrown (Error ''Electron not found'')"
        by (simp add: compileElectronCode_def Let_def)
      then show ?thesis by blast
    next
      case True
      show ?thesis
      proof (cases "typeof c = ''string'' \<or> isBuffer c")
        case False
        with Inr path True have "\<forall>es. compileElectronCode h c opts es = thrown TypeError"
          by (simp add: compileElectronCode_def Let_def)
        then show ?thesis by blast
      next
        case writable: True
        with Inr path True
        have "\<forall>es. compileElectronCode h c opts es =
                foldl (handle h ?options) spawned es"
          by (simp add: compileElectronCode_def Let_def)
        then show ?thesis by blast
      qed
    qed
  qed
qed

lemma handle_rejected:
  "promise (handle h opts st x) = Rejected e \<Longrightarrow>
   promise st = Rejected e \<or> x = ChildError e"
  by (cases x; cases "promise st") (simp_all add: onEnd_def resolve_def reject_def Let_def)

lemma foldl_handle_rejected:
  "promise (foldl (handle h opts) st es) = Rejected e \<Longrightarrow>
   promise st = Rejected e \<or> ChildError e \<in> set es"
proof (induction es arbitrary: st)
  case Nil
  then show ?case by simp
next
  case (Cons x xs)
  from Cons.prems have "promise (foldl (handle h opts) (handle h opts st x) xs) = Rejected e"
    by simp
  from Cons.IH [OF this] show ?case
    using handle_rejected [of h opts st x e] by auto
qed

lemma foldl_handle_pending:
  "promise (foldl (handle h opts) st es) = Pending \<Longrightarrow>
   data (foldl (handle h opts) st es) = data st @ stdout_chunks es"
proof (induction es arbitrary: st)
  case Nil
  then show ?case by simp
next
  case (Cons x xs)
  let ?st' = "handle h opts st x"
  from Cons.prems have run: "promise (foldl (handle h opts) ?st' xs) = Pending" by simp
  have pend: "promise ?st' = Pending"
    using run foldl_handle_settled [of ?st' h opts xs] by auto
  then have "promise st = Pending"
    using handle_settled [of st h opts x] by auto
  with pend have "data ?st' @ stdout_chunks xs = data st @ stdout_chunks (x # xs)"
    by (cases x) (simp_all add: onEnd_def resolve_def Let_def)
  with Cons.IH [OF run] show ?case by simp
qed

lemma foldl_handle_quiet:
  assumes "promise st = Pending"
    and "\<forall>x \<in> set pre. x \<noteq> StdoutEnd \<and> \<not> is_exit x \<and> \<not> is_child_error x"
  shows "promise (foldl (handle h opts) st pre) = Pending \<and>
         data (foldl (handle h opts) st pre) = data st @ stdout_chunks pre"
  using assms
proof (induction pre arbitrary: st)
  case Nil
  then show ?case by simp
next
  case (Cons x xs)
  let ?st' = "handle h opts st x"
  from Cons.prems have x: "x \<noteq> StdoutEnd" "\<not> is_exit x" "\<not> is_child_error x"
    and xs: "\<forall>y \<in> set xs. y \<noteq> StdoutEnd \<and> \<not> is_exit y \<and> \<not> is_child_error y"
    by simp_all
  from x Cons.prems(1) have pend: "promise ?st' = Pending"
    by (cases x) simp_all
  from x have dat: "data ?st' @ stdout_chunks xs = data st @ stdout_chunks (x # xs)"
    by (cases x) simp_all
  from Cons.IH [OF pend xs] dat show ?case by simp
qed

lemma foldl_handle_first_end:
  assumes "promise st = Pending"
    and "\<forall>x \<in> set pre. x \<noteq> StdoutEnd \<and> \<not> is_exit x \<and> \<not> is_child_error x"
    and "e = StdoutEnd \<or> is_exit e"
  shows "promise (foldl (handle h opts) st (pre @ e # post)) =
           Resolved (if truthy (get_prop opts ''compress'')
                     then brotliCompressSync h (data st @ stdout_chunks pre)
                     else data st @ stdout_chunks pre)"
proof -
  let ?mid = "foldl (handle h opts) st pre"
  from foldl_handle_quiet [OF assms(1,2), of h opts]
  have mid: "promise ?mid = Pending" "data ?mid = data st @ stdout_chunks pre"
    by simp_all
  from assms(3) have "handle h opts ?mid e = onEnd h opts ?mid"
    by (cases e) auto
  with mid have res: "promise (handle h opts ?mid e) =
           Resolved (if truthy (get_prop opts ''compress'')
                     then brotliCompressSync h (data st @ stdout_chunks pre)
                     else data st @ stdout_chunks pre)"
    by (simp add: onEnd_pending)
  then have "promise (foldl (handle h opts) (handle h opts ?mid e) post) =
           Resolved (if truthy (get_prop opts ''compress'')
                     then brotliCompressSync h (data st @ stdout_chunks pre)
                     else data st @ stdout_chunks pre)"
    using foldl_handle_settled [of "handle h opts ?mid e" h opts post] by simp
  then show ?thesis by simp
qed

text \<open>
  C5, as stated, fails: \<open>onEnd\<close> is also the listener of the end of the child's
  standard output. The promise is resolved at that event although no exit event has
  been seen; and when the exit event comes before the last chunk, the promise is
  resolved with the output read so far.
\<close>

theorem resolves_before_exit_counterexample:
  "promise (compileElectronCode example_host (Str (ascii ''1+1'')) (Obj [])
      [StdoutData [0x3c, 0x05], StdoutEnd]) = Resolved [0x3c, 0x05] \<and>
   filter is_exit [StdoutData [0x3c, 0x05], StdoutEnd] = [] \<and>
   promise (compileElectronCode example_host (Str (ascii ''1+1'')) (Obj [])
      [StdoutData [0x3c, 0x05], ChildExit (Some 0), StdoutData [0xde, 0xc0], StdoutEnd])
     = Resolved [0x3c, 0x05]"
  by (simp add: example_executor handler_eval)

text \<open>
  C5, amended. A resolved promise was resolved at the first event that is the end of the
  child's standard output or the exit of the child, whichever came first, with no
  \<open>error\<close> event of the child before it; its value is the output read before that
  event, compressed when \<open>options.compress\<close> is truthy. And when the executor has not
  thrown, the first such event, with no \<open>error\<close> event of the child before it, does
  resolve the promise, with that value.
\<close>

theorem resolves_at_first_end_or_exit:
  "(promise (compileElectronCode h javascriptCode options events) = Resolved d \<longrightarrow>
      (\<exists>pre e post. events = pre @ e # post \<and> (e = StdoutEnd \<or> is_exit e) \<and>
         (\<forall>x \<in> set pre. x \<noteq> StdoutEnd \<and> \<not> is_exit x \<and> \<not> is_child_error x) \<and>
         d = resolved_value h options (stdout_chunks pre))) \<and>
   (promise (compileElectronCode h javascriptCode options []) = Pending \<and>
    events = pre @ e # post \<and> (e = StdoutEnd \<or> is_exit e) \<and>
    (\<forall>x \<in> set pre. x \<noteq> StdoutEnd \<and> \<not> is_exit x \<and> \<not> is_child_error x) \<longrightarrow>
      promise (compileElectronCode h javascriptCode options events)
        = Resolved (resolved_value h options (stdout_chunks pre)))"
proof (intro conjI impI)
  assume res: "promise (compileElectronCode h javascriptCode options events) = Resolved d"
  from compileElectronCode_cases [of h javascriptCode options] res
  have "promise (foldl (handle h (js_or options (Obj []))) spawned events) = Resolved d"
    by (auto simp: thrown_def)
  moreover have sp: "promise spawned = Pending" "data spawned = []"
    by (simp_all add: spawned_def)
  ultimately show "\<exists>pre e post. events = pre @ e # post \<and> (e = StdoutEnd \<or> is_exit e) \<and>
         (\<forall>x \<in> set pre. x \<noteq> StdoutEnd \<and> \<not> is_exit x \<and> \<not> is_child_error x) \<and>
         d = resolved_value h options (stdout_chunks pre)"
    using foldl_handle_resolved [of spawned h "js_or options (Obj [])" events d]
    unfolding resolved_value_def sp(2) append_Nil by blast
next
  assume a: "promise (compileElectronCode h javascriptCode options []) = Pending \<and>
    events = pre @ e # post \<and> (e = StdoutEnd \<or> is_exit e) \<and>
    (\<forall>x \<in> set pre. x \<noteq> StdoutEnd \<and> \<not> is_exit x \<and> \<not> is_child_error x)"
  from compileElectronCode_cases [of h javascriptCode options] a
  have ran: "compileElectronCode h javascriptCode options events =
      foldl (handle h (js_or options (Obj []))) spawned events"
    by (auto simp: thrown_def)
  have sp: "promise spawned = Pending" "data spawned = []"
    by (simp_all add: spawned_def)
  from a have "promise (foldl (handle h (js_or options (Obj []))) spawned (pre @ e # post))
      = Resolved (if truthy (get_prop (js_or options (Obj [])) ''compress'')
                  then brotliCompressSync h (data spawned @ stdout_chunks pre)
                  else data spawned @ stdout_chunks pre)"
    by (intro foldl_handle_first_end sp(1)) blast+
  with a ran show "promise (compileElectronCode h javascriptCode options events)
        = Resolved (resolved_value h options (stdout_chunks pre))"
    by (simp add: resolved_value_def sp(2))
qed

theorem resolves_at_first_end_or_exit_witness:
  "promise (compileElectronCode example_host (Str (ascii ''1+1'')) (Obj [])
      [StdoutData [0x3c, 0x05], StdoutEnd, ChildExit (Some 0)]) = Resolved [0x3c, 0x05] \<and>
   (\<exists>pre e post. [StdoutData [0x3c, 0x05], StdoutEnd, ChildExit (Some 0)] = pre @ e # post \<and>
      (e = StdoutEnd \<or> is_exit e) \<and>
      (\<forall>x \<in> set pre. x \<noteq> StdoutEnd \<and> \<not> is_exit x \<and> \<not> is_child_error x) \<and>
      [0x3c, 0x05] = resolved_value example_host (Obj []) (stdout_chunks pre)) \<and>
   promise (compileElectronCode example_host (Str (ascii ''1+1'')) (Obj []) []) = Pending \<and>
   promise (compileElectronCode example_host (Str (ascii ''1+1'')) (Obj [])
      ([StdoutData [0xde], StderrData [0x21]] @ ChildExit (Some 0) # [StdoutEnd]))
     = Resolved (resolved_value example_host (Obj []) (stdout_chunks
         [StdoutData [0xde], StderrData [0x21]])) \<and>
   resolved_value example_host (Obj []) (stdout_chunks [StdoutData [0xde], StderrData [0x21]])
     = [0xde]"
proof -
  have r: "promise (compileElectronCode example_host (Str (ascii ''1+1'')) (Obj [])
      [StdoutData [0x3c, 0x05], StdoutEnd, ChildExit (Some 0)]) = Resolved [0x3c, 0x05]"
    by (simp add: example_executor handler_eval)
  have p: "promise (compileElectronCode example_host (Str (ascii ''1+1'')) (Obj []) [])
      = Pending"
    by (simp add: example_executor handler_eval)
  have q: "\<forall>x \<in> set [StdoutData [0xde], StderrData [0x21]].
      x \<noteq> StdoutEnd \<and> \<not> is_exit x \<and> \<not> is_child_error x"
    by simp
  have v: "resolved_value example_host (Obj [])
      (stdout_chunks [StdoutData [0xde], StderrData [0x21]]) = [0xde]"
    by (simp add: resolved_value_def js_or_def)
  note safety = resolves_at_first_end_or_exit [THEN conjunct1, rule_format, OF r]
  have "promise (compileElectronCode example_host (Str (ascii ''1+1'')) (Obj [])
      ([StdoutData [0xde], StderrData [0x21]] @ ChildExit (Some 0) # [StdoutEnd]))
     = Resolved (resolved_value example_host (Obj []) (stdout_chunks
         [StdoutData [0xde], StderrData [0x21]]))"
    using resolves_at_first_end_or_exit [of example_host "Str (ascii ''1+1'')" "Obj []"
        "[StdoutData [0xde], StderrData [0x21]] @ ChildExit (Some 0) # [StdoutEnd]" _
        "[StdoutData [0xde], StderrData [0x21]]" "ChildExit (Some 0)" "[StdoutEnd]"]
      p q by simp
  with safety r p v show ?thesis by blast
qed

text \<open>
  C6, as stated, fails: the exit listener does not look at the exit code, and the
  listener for errors of the output stream only logs. A child that exits with code 1
  after some output resolves the promise with that output; so does a run with a
  stream error.
\<close>

theorem nonzero_exit_resolves_counterexample:
  "compileElectronCode example_host (Str (ascii ''1+1'')) (Obj [])
      [StdoutData [0x3c, 0x05], ChildExit (Some 1)]
     = \<lparr>data = [0x3c, 0x05], promise = Resolved [0x3c, 0x05], console = []\<rparr> \<and>
   compileElectronCode example_host (Str (ascii ''1+1'')) (Obj [])
      [StdoutData [0x3c, 0x05], StdoutError (HostError ''EPIPE''), StdoutEnd,
       ChildExit (Some 0)]
     = \<lparr>data = [0x3c, 0x05], promise = Resolved [0x3c, 0x05],
        console = [ConsoleError (HostError ''EPIPE'')]\<rparr>"
  by (simp add: example_executor handler_eval)

text \<open>
  C6, amended. The promise is rejected only by an \<open>error\<close> event of the child process
  itself, or by an exception of the executor before any event. An exit event resolves
  a pending promise with the whole output read so far, whatever the exit code; an error
  of the standard output or standard error stream changes neither the promise nor the
  accumulated output.
\<close>

theorem rejects_only_on_child_error:
  "(promise (compileElectronCode h c opts es) = Rejected e \<longrightarrow>
      promise (compileElectronCode h c opts []) = Rejected e \<or> ChildError e \<in> set es) \<and>
   (promise (compileElectronCode h c opts es) = Pending \<longrightarrow>
      promise (compileElectronCode h c opts (es @ [ChildExit code]))
        = Resolved (resolved_value h opts (stdout_chunks es))) \<and>
   promise (compileElectronCode h c opts (es @ [StdoutError err]))
     = promise (compileElectronCode h c opts es) \<and>
   data (compileElectronCode h c opts (es @ [StdoutError err]))
     = data (compileElectronCode h c opts es) \<and>
   promise (compileElectronCode h c opts (es @ [StderrError err]))
     = promise (compileElectronCode h c opts es) \<and>
   data (compileElectronCode h c opts (es @ [StderrError err]))
     = data (compileElectronCode h c opts es)"
proof -
  let ?o = "js_or opts (Obj [])"
  from compileElectronCode_cases [of h c opts]
  consider (threw) x where "\<forall>es. compileElectronCode h c opts es = thrown x"
    | (ran) "\<forall>es. compileElectronCode h c opts es = foldl (handle h ?o) spawned es"
    by blast
  then show ?thesis
  proof cases
    case threw
    then show ?thesis by (simp add: thrown_def)
  next
    case ran
    have 1: "promise (foldl (handle h ?o) spawned es) = Rejected e \<longrightarrow>
        promise (foldl (handle h ?o) spawned []) = Rejected e \<or> ChildError e \<in> set es"
      using foldl_handle_rejected [of h ?o spawned es e] by simp
    have 2: "promise (foldl (handle h ?o) spawned es) = Pending \<longrightarrow>
        promise (foldl (handle h ?o) spawned (es @ [ChildExit code]))
          = Resolved (resolved_value h opts (stdout_chunks es))"
    proof
      assume p: "promise (foldl (handle h ?o) spawned es) = Pending"
      from foldl_handle_pending [OF p]
      have "data (foldl (handle h ?o) spawned es) = stdout_chunks es"
        by (simp add: spawned_def)
      with p show "promise (foldl (handle h ?o) spawned (es @ [ChildExit code]))
          = Resolved (resolved_value h opts (stdout_chunks es))"
        by (simp add: onEnd_pending resolved_value_def)
    qed
    from ran 1 2 show ?thesis by simp
  qed
qed

theorem rejects_only_on_child_error_witness:
  "promise (compileElectronCode example_host (Str (ascii ''1+1'')) (Obj [])
      [StdoutData [0x3c], ChildError (HostError ''ENOENT'')]) = Rejected (HostError ''ENOENT'') \<and>
   ChildError (HostError ''ENOENT'') \<in> set [StdoutData [0x3c], ChildError (HostError ''ENOENT'')] \<and>
   promise (compileElectronCode example_host (Str (ascii ''1+1'')) (Obj [])
      [StdoutData [0x3c, 0x05]]) = Pending \<and>
   promise (compileElectronCode example_host (Str (ascii ''1+1'')) (Obj [])
      ([StdoutData [0x3c, 0x05]] @ [ChildExit (Some 1)])) = Resolved [0x3c, 0x05]"
proof -
  have a: "promise (compileElectronCode example_host (Str (ascii ''1+1'')) (Obj [])
      [StdoutData [0x3c], ChildError (HostError ''ENOENT'')]) = Rejected (HostError ''ENOENT'')"
    by (simp add: example_executor handler_eval)
  have b: "promise (compileElectronCode example_host (Str (ascii ''1+1'')) (Obj [])
      [StdoutData [0x3c, 0x05]]) = Pending"
    by (simp add: example_executor handler_eval)
  have c: "promise (compileElectronCode example_host (Str (ascii ''1+1'')) (Obj []) [])
      \<noteq> Rejected (HostError ''ENOENT'')"
    by (simp add: example_executor handler_eval)
  have d: "resolved_value example_host (Obj []) (stdout_chunks [StdoutData [0x3c, 0x05]])
      = [0x3c, 0x05]"
    by (simp add: resolved_value_def js_or_def)
  show ?thesis
    using rejects_only_on_child_error [of example_host "Str (ascii ''1+1'')" "Obj []"
        "[StdoutData [0x3c], ChildError (HostError ''ENOENT'')]" "HostError ''ENOENT''"]
      rejects_only_on_child_error [of example_host "Str (ascii ''1+1'')" "Obj []"
        "[StdoutData [0x3c, 0x05]]" _ "Some 1"] a b c d
    by simp
qed

section \<open>The compress flag on the way to Electron\<close>

text \<open>
  C8. With \<open>electron\<close> and \<open>compress\<close> both set, \<open>compileFile\<close> passes the flag itself
  where \<open>compileElectronCode\<close> expects its options object, so \<open>options.compress\<close> is
  undefined there and the file written is the raw output of the child, for every
  compression function \<open>c\<close>. Without \<open>electron\<close>, the same request writes the
  compressed cache.
\<close>

theorem compileFile_electron_compress_ignored:
  "compileFile (example_host\<lparr>brotliCompressSync := c\<rparr>) example_files
      (Obj [(''filename'', Str (ascii ''a.js'')), (''electron'', Bool True),
            (''compress'', Bool True)])
      Undefined [StdoutData chunk, StdoutEnd, ChildExit (Some 0)]
     = Some (Inr (ascii ''a.jsc'', chunk), example_files(ascii ''a.jsc'' \<mapsto> chunk)) \<and>
   compileFile (example_host\<lparr>brotliCompressSync := c\<rparr>) example_files
      (Obj [(''filename'', Str (ascii ''a.js'')), (''compress'', Bool True)])
      Undefined []
     = Some (Inr (ascii ''a.jsc'',
                  c (example_cache (Module_wrap example_host (ascii ''1+1'')))),
             example_files(ascii ''a.jsc'' \<mapsto>
                  c (example_cache (Module_wrap example_host (ascii ''1+1'')))))"
proof -
  let ?h = "example_host\<lparr>brotliCompressSync := c\<rparr>"
  have e: "promise (compileElectronCode ?h (Str (Module_wrap example_host (ascii ''1+1'')))
      (Bool True)
      [StdoutData chunk, StdoutEnd, ChildExit (Some 0)]) = Resolved chunk"
    by (simp add: example_executor_c spawned_def onEnd_def resolve_def Let_def)
  have p: "compileCode ?h (Str (Module_wrap example_host (ascii ''1+1''))) (Bool True)
      = Inr (c (example_cache (Module_wrap example_host (ascii ''1+1''))))"
    by (simp add: compileCode_def example_host_def)
  show ?thesis
    unfolding compileFile_def
    by (simp add: decode_args_def js_or_def example_read example_compiled_name example_code
        e p Let_def)
qed

theorem compileFile_electron_compress_ignored_witness:
  "compileFile example_host example_files
      (Obj [(''filename'', Str (ascii ''a.js'')), (''electron'', Bool True),
            (''compress'', Bool True)])
      Undefined [StdoutData [0x3c, 0x05, 0xde, 0xc0], StdoutEnd, ChildExit (Some 0)]
     = Some (Inr (ascii ''a.jsc'', [0x3c, 0x05, 0xde, 0xc0]),
             example_files(ascii ''a.jsc'' \<mapsto> [0x3c, 0x05, 0xde, 0xc0])) \<and>
   brotliCompressSync example_host [0x3c, 0x05, 0xde, 0xc0] \<noteq> [0x3c, 0x05, 0xde, 0xc0]"
proof -
  have same: "example_host\<lparr>brotliCompressSync := brotliCompressSync example_host\<rparr>
      = example_host"
    by simp
  have differs: "brotliCompressSync example_host [0x3c, 0x05, 0xde, 0xc0]
      \<noteq> [0x3c, 0x05, 0xde, 0xc0]"
    by (simp add: example_host_def)
  from compileFile_electron_compress_ignored [of "brotliCompressSync example_host"
      "[0x3c, 0x05, 0xde, 0xc0]"] differs
  show ?thesis unfolding same by blast
qed

end
